theory Spec2Isabelle
  imports Complex_Main "HOL-Library.Sublist" "HOL-Library.AList"
begin

section \<open>Python values, exceptions and builtins\<close>

text \<open>
  The hyperparameter search space of \<^verbatim>\<open>objective.py\<close> is a Python dict whose values are
  inspected with \<^verbatim>\<open>isinstance\<close>, so the model carries the dynamic type of each value.
  Floats are kept opaque (type \<open>'f\<close>): the code never computes with them, it only
  converts with \<^verbatim>\<open>float()\<close> and hands them on.
\<close>

datatype 'f pyval =
    PNone
  | PBool bool
  | PInt int
  | PFloat 'f
  | PStr string
  | PTuple "'f pyval list"
  | PList "'f pyval list"

datatype pyerr =
    TypeError string
  | ValueError string
  | RuntimeError string
  | IndexError string
  | AttributeError string
  | OverflowError string
  | OtherError string

text \<open>\<^verbatim>\<open>isinstance(v, float)\<close>, \<^verbatim>\<open>isinstance(v, int)\<close> (a Python bool is an int),
  \<^verbatim>\<open>isinstance(v, tuple)\<close> and \<^verbatim>\<open>isinstance(v, list)\<close>.\<close>

fun isinstance_float :: "'f pyval \<Rightarrow> bool" where
  "isinstance_float (PFloat x) = True"
| "isinstance_float _ = False"

fun isinstance_int :: "'f pyval \<Rightarrow> bool" where
  "isinstance_int (PInt i) = True"
| "isinstance_int (PBool b) = True"
| "isinstance_int _ = False"

fun isinstance_tuple :: "'f pyval \<Rightarrow> bool" where
  "isinstance_tuple (PTuple vs) = True"
| "isinstance_tuple _ = False"

fun isinstance_list :: "'f pyval \<Rightarrow> bool" where
  "isinstance_list (PList vs) = True"
| "isinstance_list _ = False"

definition is_number :: "'f pyval \<Rightarrow> bool" where
  "is_number v = (isinstance_float v \<or> isinstance_int v)"

text \<open>The integer a Python int object stands for (\<^verbatim>\<open>True\<close> is 1, \<^verbatim>\<open>False\<close> is 0).\<close>

fun int_value :: "'f pyval \<Rightarrow> int" where
  "int_value (PInt i) = i"
| "int_value (PBool b) = (if b then 1 else 0)"
| "int_value _ = 0"

text \<open>The name of a value's type, and a text between single quotes, as error messages show them.\<close>

fun type_name :: "'f pyval \<Rightarrow> string" where
  "type_name PNone = ''NoneType''"
| "type_name (PBool b) = ''bool''"
| "type_name (PInt i) = ''int''"
| "type_name (PFloat x) = ''float''"
| "type_name (PStr s) = ''str''"
| "type_name (PTuple vs) = ''tuple''"
| "type_name (PList vs) = ''list''"

definition quoted :: "string \<Rightarrow> string" where
  "quoted s = [CHR 0x27] @ s @ [CHR 0x27]"

text \<open>
  The interpreter's \<^verbatim>\<open>float()\<close>: the identity on a float; on an int the nearest float, or
  OverflowError when the int is too large; on a string the parsed literal, or ValueError;
  TypeError on anything else. Rounding and parsing belong to the interpreter and are
  parameters.
\<close>

record 'f builtins =
  float_of_int :: "int \<Rightarrow> pyerr + 'f"
  float_of_str :: "string \<Rightarrow> pyerr + 'f"

fun py_float :: "'f builtins \<Rightarrow> 'f pyval \<Rightarrow> pyerr + 'f" where
  "py_float B (PFloat x) = Inr x"
| "py_float B (PInt i) = float_of_int B i"
| "py_float B (PBool b) = float_of_int B (if b then 1 else 0)"
| "py_float B (PStr s) = float_of_str B s"
| "py_float B v =
     Inl (TypeError (''float() argument must be a string or a real number, not '' @
                     quoted (type_name v)))"

text \<open>
  Unpacking into two names, \<^verbatim>\<open>a, b = v\<close>: any iterable of length two unpacks (a tuple, a
  list, a two-character string); another length is a ValueError, a non-iterable a
  TypeError.
\<close>

fun unpack_items :: "'f pyval list \<Rightarrow> pyerr + ('f pyval \<times> 'f pyval)" where
  "unpack_items [a, b] = Inr (a, b)"
| "unpack_items [] = Inl (ValueError ''not enough values to unpack (expected 2, got 0)'')"
| "unpack_items [a] = Inl (ValueError ''not enough values to unpack (expected 2, got 1)'')"
| "unpack_items vs = Inl (ValueError ''too many values to unpack (expected 2)'')"

fun unpack2 :: "'f pyval \<Rightarrow> pyerr + ('f pyval \<times> 'f pyval)" where
  "unpack2 (PTuple vs) = unpack_items vs"
| "unpack2 (PList vs) = unpack_items vs"
| "unpack2 (PStr s) = unpack_items (map (\<lambda>c. PStr [c]) s)"
| "unpack2 v = Inl (TypeError (''cannot unpack non-iterable '' @ type_name v @ '' object''))"

section \<open>The search driver's trial\<close>

text \<open>
  The optuna trial is an external collaborator. Its three sampling primitives are
  parameters; each may raise. Within one pass over a dict every key is used once, so a
  function of the call's arguments covers every behaviour of a stateful trial. The calls
  made are recorded, in order, as \<open>suggestion\<close>s. \<open>study_stop\<close> is what \<^verbatim>\<open>trial.study.stop()\<close>
  does when called: it returns (\<open>None\<close>) or raises, as optuna's does outside
  \<^verbatim>\<open>study.optimize\<close>.
\<close>

record 'f trial =
  study_stop :: "pyerr option"
  suggest_float :: "string \<Rightarrow> 'f \<Rightarrow> 'f \<Rightarrow> 'f pyval \<Rightarrow> pyerr + 'f"
  suggest_int :: "string \<Rightarrow> 'f pyval \<Rightarrow> 'f pyval \<Rightarrow> pyerr + int"
  suggest_categorical :: "string \<Rightarrow> 'f pyval list \<Rightarrow> pyerr + 'f pyval"

datatype 'f suggestion =
    SuggestFloat string 'f 'f "'f pyval"
  | SuggestInt string "'f pyval" "'f pyval"
  | SuggestCategorical string "'f pyval list"

fun suggestion_key :: "'f suggestion \<Rightarrow> string" where
  "suggestion_key (SuggestFloat k lo hi lg) = k"
| "suggestion_key (SuggestInt k lo hi) = k"
| "suggestion_key (SuggestCategorical k vs) = k"

section \<open>\<^verbatim>\<open>RegressorObjective.process_tuple\<close>\<close>

definition tuple_error :: string where
  "tuple_error = ''input values for the tuple can be float/float, float/int, int/float, int/int''"

definition process_tuple ::
  "'f builtins \<Rightarrow> 'f trial \<Rightarrow> string \<Rightarrow> 'f pyval \<Rightarrow> (pyerr + 'f pyval) \<times> 'f suggestion list" where
  "process_tuple B T key val =
     (case unpack2 val of
        Inl e \<Rightarrow> (Inl e, [])
      | Inr (tup, log_flag) \<Rightarrow>
          (case unpack2 tup of
             Inl e \<Rightarrow> (Inl e, [])
           | Inr (startValue, endValue) \<Rightarrow>
               if isinstance_float startValue \<or> isinstance_float endValue then
                 (case py_float B startValue of
                    Inl e \<Rightarrow> (Inl e, [])
                  | Inr lo \<Rightarrow>
                      (case py_float B endValue of
                         Inl e \<Rightarrow> (Inl e, [])
                       | Inr hi \<Rightarrow>
                           (map_sum id PFloat (suggest_float T key lo hi log_flag),
                            [SuggestFloat key lo hi log_flag])))
               else if isinstance_int startValue \<and> isinstance_int endValue then
                 (map_sum id PInt (suggest_int T key startValue endValue),
                  [SuggestInt key startValue endValue])
               else (Inl (TypeError tuple_error), [])))"

section \<open>\<^verbatim>\<open>RegressorObjective.get_trial_parameters\<close>\<close>

text \<open>
  A dict is an association list in insertion order; \<^verbatim>\<open>param[key] = v\<close> is
  \<^const>\<open>AList.update\<close> (overwrite in place, or append). The loop stops at the first
  exception; the suggestions made so far stay made.
\<close>

fun get_trial_parameters_loop ::
  "'f builtins \<Rightarrow> 'f trial \<Rightarrow> (string \<times> 'f pyval) list \<Rightarrow> (string \<times> 'f pyval) list \<Rightarrow>
   'f suggestion list \<Rightarrow> (pyerr + (string \<times> 'f pyval) list) \<times> 'f suggestion list" where
  "get_trial_parameters_loop B T [] param tr = (Inr param, tr)"
| "get_trial_parameters_loop B T ((key, val) # rest) param tr =
     (if isinstance_tuple val then
        (case process_tuple B T key val of
           (Inl e, evs) \<Rightarrow> (Inl e, tr @ evs)
         | (Inr v, evs) \<Rightarrow>
             get_trial_parameters_loop B T rest (AList.update key v param) (tr @ evs))
      else if isinstance_list val then
        (case val of
           PList choices \<Rightarrow>
             (case suggest_categorical T key choices of
                Inl e \<Rightarrow> (Inl e, tr @ [SuggestCategorical key choices])
              | Inr v \<Rightarrow>
                  get_trial_parameters_loop B T rest (AList.update key v param)
                    (tr @ [SuggestCategorical key choices]))
         | _ \<Rightarrow> (Inl (TypeError ''Possible input values: tuple, list''), tr))
      else (Inl (TypeError ''Possible input values: tuple, list''), tr))"

definition get_trial_parameters ::
  "'f builtins \<Rightarrow> 'f trial \<Rightarrow> (string \<times> 'f pyval) list \<Rightarrow>
   (pyerr + (string \<times> 'f pyval) list) \<times> 'f suggestion list" where
  "get_trial_parameters B T model_params = get_trial_parameters_loop B T model_params [] []"

section \<open>Data frames\<close>

text \<open>
  A pandas DataFrame is its row index and its named columns, in order. A Series is one
  column with the index. Only positional column access is used by the code.
\<close>

record ('i, 'v) frame =
  index :: "'i list"
  cols :: "(string \<times> 'v list) list"

record ('i, 'v) series =
  series_index :: "'i list"
  series_name :: string
  series_values :: "'v list"

definition columns :: "('i, 'v) frame \<Rightarrow> string list" where
  "columns df = map fst (cols df)"

text \<open>\<^verbatim>\<open>df.iloc[:, 1:-1]\<close>: the slice is empty on fewer than three columns.\<close>

definition iloc_1_to_last :: "('i, 'v) frame \<Rightarrow> ('i, 'v) frame" where
  "iloc_1_to_last df = df\<lparr>cols := butlast (tl (cols df))\<rparr>"

text \<open>\<^verbatim>\<open>df.iloc[:, 0]\<close>: IndexError on a frame without columns.\<close>

definition iloc_0 :: "('i, 'v) frame \<Rightarrow> pyerr + ('i, 'v) series" where
  "iloc_0 df =
     (case cols df of
        [] \<Rightarrow> Inl (IndexError ''single positional indexer is out-of-bounds'')
      | (name, vals) # rest \<Rightarrow>
          Inr \<lparr>series_index = index df, series_name = name, series_values = vals\<rparr>)"

text \<open>Lines 137 to 139: \<^verbatim>\<open>x, y = df.iloc[:, 1:-1], df.iloc[:, 0]\<close>.\<close>

definition split_x_y :: "('i, 'v) frame \<Rightarrow> pyerr + (('i, 'v) frame \<times> ('i, 'v) series)" where
  "split_x_y df = (case iloc_0 df of Inl e \<Rightarrow> Inl e | Inr y \<Rightarrow> Inr (iloc_1_to_last df, y))"

text \<open>
  Line 130: \<^verbatim>\<open>columns[0] != "load" or columns[-1] != "horizon"\<close>. Indexing an empty
  column index raises IndexError.
\<close>

definition column_order_wrong :: "string list \<Rightarrow> pyerr + bool" where
  "column_order_wrong cs =
     (if cs = [] then Inl (IndexError ''index 0 is out of bounds for axis 0 with size 0'')
      else Inr (hd cs \<noteq> ''load'' \<or> last cs \<noteq> ''horizon''))"

definition column_error :: string where
  "column_error = ''Column order in train input data not as expected, could not train a model!''"

section \<open>The objective and its collaborators\<close>

text \<open>
  Everything the objective calls outside \<^verbatim>\<open>objective.py\<close> is a parameter: the regressor
  (\<^verbatim>\<open>self.model\<close>), the pruning-callback factory, the data splitter, the clock and the
  metric module. Each call may raise. Within one trial each of them is called at most
  once, so a function of the arguments covers a stateful collaborator. Every call made is
  recorded, in order, as an \<open>event\<close>.
\<close>

record ('f, 'i, 'v, 'cb) regressor =
  set_params :: "(string \<times> 'f pyval) list \<Rightarrow> pyerr option"
  fit :: "('i, 'v) frame \<Rightarrow> ('i, 'v) series \<Rightarrow> (('i, 'v) frame \<times> ('i, 'v) series) list \<Rightarrow>
          nat \<Rightarrow> bool \<Rightarrow> string \<Rightarrow> 'cb list \<Rightarrow> pyerr option"
  predict :: "('i, 'v) frame \<Rightarrow> pyerr + 'v list"

record ('f, 'i, 'v, 'cb) objective =
  input_data :: "('i, 'v) frame"
  model :: "('f, 'i, 'v, 'cb) regressor"
  pruning_function :: "(string \<times> 'f pyval) list \<Rightarrow> pyerr + 'cb"
  model_params :: "(string \<times> 'f pyval) list"
  start_time :: int
  test_fraction :: 'f
  validation_fraction :: 'f
  eval_metric :: string
  verbose :: bool
  args_eval :: "(string \<times> 'f pyval) list"

text \<open>
  Times are microseconds (the resolution of \<^verbatim>\<open>datetime\<close>). \<open>metrics E name\<close> is what
  \<^verbatim>\<open>eval("openstf.metrics.metrics." + name)\<close> gives: the metric function, or the exception
  of the lookup (AttributeError for a name the module does not define).
\<close>

record ('f, 'i, 'v) env =
  utcnow :: int
  split_data_train_validation_test ::
    "('i, 'v) frame \<Rightarrow> 'f \<Rightarrow> 'f \<Rightarrow> bool \<Rightarrow>
     pyerr + (('i, 'v) frame \<times> ('i, 'v) frame \<times> ('i, 'v) frame)"
  interpreter :: "'f builtins"
  metrics :: "string \<Rightarrow> pyerr + (('i, 'v) series \<Rightarrow> 'v list \<Rightarrow> pyerr + 'f)"

datatype ('f, 'i, 'v, 'cb) event =
    StudyStop
  | SplitData "('i, 'v) frame" 'f 'f bool
  | Suggest "'f suggestion"
  | PruningFunction "(string \<times> 'f pyval) list"
  | SetParams "(string \<times> 'f pyval) list"
  | Fit "('i, 'v) frame" "('i, 'v) series" "(('i, 'v) frame \<times> ('i, 'v) series) list"
        nat bool string "'cb list"
  | Predict "('i, 'v) frame"
  | Metric string "('i, 'v) series" "'v list"
  | Print string

text \<open>What \<^verbatim>\<open>__call__\<close> returns to the driver: the loss, or Python's \<^verbatim>\<open>None\<close>.\<close>

datatype 'f outcome = Loss 'f | ReturnedNone

fun is_AttributeError :: "pyerr \<Rightarrow> bool" where
  "is_AttributeError (AttributeError m) = True"
| "is_AttributeError _ = False"

fun is_regressor_call :: "('f, 'i, 'v, 'cb) event \<Rightarrow> bool" where
  "is_regressor_call (SetParams p) = True"
| "is_regressor_call (Fit x y es n vb m cbs) = True"
| "is_regressor_call (Predict x) = True"
| "is_regressor_call _ = False"

definition EARLY_STOPPING_ROUNDS :: nat where
  "EARLY_STOPPING_ROUNDS = 10"

text \<open>\<^verbatim>\<open>timedelta(minutes=2, seconds=0)\<close>, in microseconds.\<close>

definition budget :: int where
  "budget = 2 * 60 * 1000000"

text \<open>Lines 166 to 171: the metric lookup and call, inside \<^verbatim>\<open>try ... except AttributeError\<close>.\<close>

definition score ::
  "('f, 'i, 'v) env \<Rightarrow> ('f, 'i, 'v, 'cb) objective \<Rightarrow> ('i, 'v) series \<Rightarrow> 'v list \<Rightarrow>
   (pyerr + 'f outcome) \<times> ('f, 'i, 'v, 'cb) event list" where
  "score E self test_y forecast_y =
     (case metrics E (eval_metric self) of
        Inl e \<Rightarrow>
          if is_AttributeError e
          then (Inr ReturnedNone,
                [Print ''loss function is not defined in openstf.metrics.metrics''])
          else (Inl e, [])
      | Inr metric \<Rightarrow>
          (case metric test_y forecast_y of
             Inl e \<Rightarrow>
               if is_AttributeError e
               then (Inr ReturnedNone,
                     [Metric (eval_metric self) test_y forecast_y,
                      Print ''loss function is not defined in openstf.metrics.metrics''])
               else (Inl e, [Metric (eval_metric self) test_y forecast_y])
           | Inr loss \<Rightarrow> (Inr (Loss loss), [Metric (eval_metric self) test_y forecast_y])))"

text \<open>Lines 141 to 171: sample, configure, fit, predict, score.\<close>

definition fit_and_score ::
  "('f, 'i, 'v) env \<Rightarrow> ('f, 'i, 'v, 'cb) objective \<Rightarrow> 'f trial \<Rightarrow>
   ('f, 'i, 'v, 'cb) event list \<Rightarrow>
   ('i, 'v) frame \<Rightarrow> ('i, 'v) series \<Rightarrow> ('i, 'v) frame \<Rightarrow> ('i, 'v) series \<Rightarrow>
   ('i, 'v) frame \<Rightarrow> ('i, 'v) series \<Rightarrow>
   (pyerr + 'f outcome) \<times> ('f, 'i, 'v, 'cb) event list" where
  "fit_and_score E self T tr1 train_x train_y valid_x valid_y test_x test_y =
     (let eval_set = [(train_x, train_y), (valid_x, valid_y)] in
      case get_trial_parameters (interpreter E) T (model_params self) of
        (Inl e, sg) \<Rightarrow> (Inl e, tr1 @ map Suggest sg)
      | (Inr param, sg) \<Rightarrow>
          (let tr2 = tr1 @ map Suggest sg @ [PruningFunction (args_eval self)] in
           case pruning_function self (args_eval self) of
             Inl e \<Rightarrow> (Inl e, tr2)
           | Inr pruning_callback \<Rightarrow>
               (let tr3 = tr2 @ [SetParams param] in
                case set_params (model self) param of
                  Some e \<Rightarrow> (Inl e, tr3)
                | None \<Rightarrow>
                    (let tr4 = tr3 @ [Fit train_x train_y eval_set EARLY_STOPPING_ROUNDS
                                        (verbose self) (eval_metric self) [pruning_callback]] in
                     case fit (model self) train_x train_y eval_set EARLY_STOPPING_ROUNDS
                            (verbose self) (eval_metric self) [pruning_callback] of
                       Some e \<Rightarrow> (Inl e, tr4)
                     | None \<Rightarrow>
                         (let tr5 = tr4 @ [Predict test_x] in
                          case predict (model self) test_x of
                            Inl e \<Rightarrow> (Inl e, tr5)
                          | Inr forecast_y \<Rightarrow>
                              (case score E self test_y forecast_y of
                                 (r, evs) \<Rightarrow> (r, tr5 @ evs)))))))"

text \<open>Lines 121 to 171 of \<^verbatim>\<open>RegressorObjective.__call__\<close>, after the calls \<open>tr0\<close>.\<close>

definition split_fit_score ::
  "('f, 'i, 'v) env \<Rightarrow> ('f, 'i, 'v, 'cb) objective \<Rightarrow> 'f trial \<Rightarrow>
   ('f, 'i, 'v, 'cb) event list \<Rightarrow> (pyerr + 'f outcome) \<times> ('f, 'i, 'v, 'cb) event list" where
  "split_fit_score E self T tr0 =
     (let tr1 = tr0 @ [SplitData (input_data self) (test_fraction self)
                         (validation_fraction self) True]
      in case split_data_train_validation_test E (input_data self) (test_fraction self)
                (validation_fraction self) True of
           Inl e \<Rightarrow> (Inl e, tr1)
         | Inr (train_data, validation_data, test_data) \<Rightarrow>
             (case column_order_wrong (columns train_data) of
                Inl e \<Rightarrow> (Inl e, tr1)
              | Inr True \<Rightarrow> (Inl (RuntimeError column_error), tr1)
              | Inr False \<Rightarrow>
                  (case split_x_y train_data of
                     Inl e \<Rightarrow> (Inl e, tr1)
                   | Inr (train_x, train_y) \<Rightarrow>
                       (case split_x_y validation_data of
                          Inl e \<Rightarrow> (Inl e, tr1)
                        | Inr (valid_x, valid_y) \<Rightarrow>
                            (case split_x_y test_data of
                               Inl e \<Rightarrow> (Inl e, tr1)
                             | Inr (test_x, test_y) \<Rightarrow>
                                 fit_and_score E self T tr1 train_x train_y valid_x valid_y
                                   test_x test_y)))))"

text \<open>
  \<^verbatim>\<open>RegressorObjective.__call__\<close>: lines 116 to 119, the elapsed time and the stop
  request, whose exception, if it raises, ends the call; then the rest.
\<close>

definition call ::
  "('f, 'i, 'v) env \<Rightarrow> ('f, 'i, 'v, 'cb) objective \<Rightarrow> 'f trial \<Rightarrow>
   (pyerr + 'f outcome) \<times> ('f, 'i, 'v, 'cb) event list" where
  "call E self T =
     (let elapsed = utcnow E - start_time self in
      if elapsed > budget then
        (case study_stop T of
           Some e \<Rightarrow> (Inl e, [StudyStop])
         | None \<Rightarrow> split_fit_score E self T [StudyStop])
      else split_fit_score E self T [])"

text \<open>The stop request, if the call makes it, returns.\<close>

definition stop_returns ::
  "('f, 'i, 'v) env \<Rightarrow> ('f, 'i, 'v, 'cb) objective \<Rightarrow> 'f trial \<Rightarrow> bool" where
  "stop_returns E self T = (utcnow E - start_time self > budget \<longrightarrow> study_stop T = None)"

section \<open>\<^verbatim>\<open>apply_features\<close>\<close>

text \<open>
  \<^verbatim>\<open>apply_features\<close> assigns columns onto the DataFrame object it is given, so DataFrame
  objects live in a heap and the function takes and returns addresses. The row index
  carries what the calendar lambdas read from it. A feature function maps the first
  column (a Series) to the values of the new column, or raises.
\<close>

record timestamp =
  weekday :: int
  month :: int
  quarter :: int

type_synonym 'v featfunc = "(timestamp, 'v) series \<Rightarrow> pyerr + 'v list"

type_synonym 'v heap = "nat \<Rightarrow> (timestamp, 'v) frame"

text \<open>
  The lag and holiday feature generators and the two weather helpers are other modules:
  parameters. A weather helper gets the heap and the address of its argument and returns
  the address of its result (the same object or a new one) and the heap it leaves.
\<close>

record ('f, 'v) feature_env =
  generate_lag_feature_functions :: "string list option \<Rightarrow> 'f \<Rightarrow> (string \<times> 'v featfunc) list"
  generate_holiday_feature_functions :: "(string \<times> 'v featfunc) list"
  add_additional_wind_features ::
    "'v heap \<Rightarrow> nat \<Rightarrow> string list option \<Rightarrow> (pyerr + nat) \<times> 'v heap"
  add_humidity_features ::
    "'v heap \<Rightarrow> nat \<Rightarrow> string list option \<Rightarrow> (pyerr + nat) \<times> 'v heap"

text \<open>\<^verbatim>\<open>d.update(other)\<close> on dicts.\<close>

definition dict_update :: "('k \<times> 'a) list \<Rightarrow> ('k \<times> 'a) list \<Rightarrow> ('k \<times> 'a) list" where
  "dict_update d other = fold (\<lambda>(k, v). AList.update k v) other d"

text \<open>Lines 65 to 71: the calendar feature functions.\<close>

definition calendar_feature_functions :: "(string \<times> 'f pyval featfunc) list" where
  "calendar_feature_functions =
     [(''IsWeekendDay'', \<lambda>x. Inr (map (\<lambda>t. PBool (weekday t div 5 = 1)) (series_index x))),
      (''IsWeekDay'', \<lambda>x. Inr (map (\<lambda>t. PBool (weekday t < 5)) (series_index x))),
      (''IsSunday'', \<lambda>x. Inr (map (\<lambda>t. PBool (weekday t = 6)) (series_index x))),
      (''Month'', \<lambda>x. Inr (map (\<lambda>t. PInt (month t)) (series_index x))),
      (''Quarter'', \<lambda>x. Inr (map (\<lambda>t. PInt (quarter t)) (series_index x)))]"

text \<open>Lines 61 to 75: the dict of all feature functions.\<close>

definition feature_functions ::
  "('f, 'f pyval) feature_env \<Rightarrow> string list option \<Rightarrow> 'f \<Rightarrow> (string \<times> 'f pyval featfunc) list" where
  "feature_functions FE features horizon =
     dict_update
       (dict_update (generate_lag_feature_functions FE features horizon)
          calendar_feature_functions)
       (generate_holiday_feature_functions FE)"

text \<open>\<^verbatim>\<open>data[key] = values\<close>: overwrite the column of that name, or append a new one.\<close>

definition set_column :: "('i, 'v) frame \<Rightarrow> string \<Rightarrow> 'v list \<Rightarrow> ('i, 'v) frame" where
  "set_column df key vals = df\<lparr>cols := AList.update key vals (cols df)\<rparr>"

text \<open>
  Lines 80 to 83, the loop over \<^verbatim>\<open>feature_functions.items()\<close>. The third component lists
  the keys whose feature function was applied, in order. An exception leaves the columns
  assigned so far on the object.
\<close>

fun add_features_loop ::
  "(string \<times> 'v featfunc) list \<Rightarrow> string list \<Rightarrow> 'v heap \<Rightarrow> nat \<Rightarrow> string list \<Rightarrow>
   pyerr option \<times> 'v heap \<times> string list" where
  "add_features_loop [] features H data computed = (None, H, computed)"
| "add_features_loop ((key, featfunc) # rest) features H data computed =
     (if key \<notin> set features then add_features_loop rest features H data computed
      else
        (case cols (H data) of
           [] \<Rightarrow> (Some (IndexError ''positional indexers are out-of-bounds''), H, computed)
         | (name, vals) # others \<Rightarrow>
             (case featfunc \<lparr>series_index = index (H data), series_name = name,
                             series_values = vals\<rparr> of
                Inl e \<Rightarrow> (Some e, H, computed @ [key])
              | Inr new \<Rightarrow>
                  add_features_loop rest features
                    (H(data := set_column (H data) key new)) data (computed @ [key]))))"

text \<open>Lines 85 to 92: the two weather helpers, the second on the result of the first.\<close>

definition weather_features ::
  "('f, 'v) feature_env \<Rightarrow> 'v heap \<Rightarrow> nat \<Rightarrow> string list option \<Rightarrow> (pyerr + nat) \<times> 'v heap" where
  "weather_features FE H data features =
     (case add_additional_wind_features FE H data features of
        (Inl e, H1) \<Rightarrow> (Inl e, H1)
      | (Inr data1, H1) \<Rightarrow> add_humidity_features FE H1 data1 features)"

definition apply_features ::
  "('f, 'f pyval) feature_env \<Rightarrow> 'f pyval heap \<Rightarrow> nat \<Rightarrow> string list option \<Rightarrow> 'f \<Rightarrow>
   ((pyerr + nat) \<times> 'f pyval heap) \<times> string list" where
  "apply_features FE H data features horizon =
     (let ff = feature_functions FE features horizon in
      case features of
        None \<Rightarrow> (weather_features FE H data features, [])
      | Some names \<Rightarrow>
          (case add_features_loop ff names H data [] of
             (Some e, H1, computed) \<Rightarrow> ((Inl e, H1), computed)
           | (None, H1, computed) \<Rightarrow> (weather_features FE H1 data features, computed)))"


section \<open>Conditions on the collaborators\<close>

text \<open>
  A well-formed declaration: an ordered pair of numeric bounds with a log flag, or a list
  of categorical choices.
\<close>

fun well_formed :: "'f pyval \<Rightarrow> bool" where
  "well_formed (PTuple [PTuple [a, b], lg]) = (is_number a \<and> is_number b)"
| "well_formed (PList choices) = True"
| "well_formed _ = False"

text \<open>
  The interpreter and the trial return normally on the calls a declaration leads to
  (optuna raises, for one, on a lower bound above the upper one).
\<close>

fun primitives_return :: "'f builtins \<Rightarrow> 'f trial \<Rightarrow> string \<Rightarrow> 'f pyval \<Rightarrow> bool" where
  "primitives_return B T key (PTuple [PTuple [a, b], lg]) =
     (if isinstance_float a \<or> isinstance_float b then
        (case py_float B a of
           Inl e \<Rightarrow> False
         | Inr lo \<Rightarrow>
             (case py_float B b of
                Inl e \<Rightarrow> False
              | Inr hi \<Rightarrow> \<not> isl (suggest_float T key lo hi lg)))
      else \<not> isl (suggest_int T key a b))"
| "primitives_return B T key (PList choices) = (\<not> isl (suggest_categorical T key choices))"
| "primitives_return B T key v = True"

text \<open>
  What one declaration contributes to a pass: \<open>v\<close> is the value that the one suggest call
  \<open>s\<close> made for it returned.
\<close>

fun sampled_from ::
  "'f builtins \<Rightarrow> 'f trial \<Rightarrow> string \<Rightarrow> 'f pyval \<Rightarrow> 'f pyval \<Rightarrow> 'f suggestion \<Rightarrow> bool" where
  "sampled_from B T key (PTuple [PTuple [a, b], lg]) v s =
     (if isinstance_float a \<or> isinstance_float b then
        (case py_float B a of
           Inl e \<Rightarrow> False
         | Inr lo \<Rightarrow>
             (case py_float B b of
                Inl e \<Rightarrow> False
              | Inr hi \<Rightarrow>
                  s = SuggestFloat key lo hi lg \<and>
                  map_sum id PFloat (suggest_float T key lo hi lg) = Inr v))
      else s = SuggestInt key a b \<and> map_sum id PInt (suggest_int T key a b) = Inr v)"
| "sampled_from B T key (PList choices) v s =
     (s = SuggestCategorical key choices \<and> suggest_categorical T key choices = Inr v)"
| "sampled_from B T key d v s = False"

section \<open>A concrete study\<close>

text \<open>
  The search space and the data of the end-to-end example: \<^verbatim>\<open>eta\<close> in \<open>[0.01, 0.2]\<close>,
  \<^verbatim>\<open>max_depth\<close> in \<open>[3, 10]\<close>, columns \<^verbatim>\<open>load, temp, horizon\<close>. The interpreter of the
  study converts an int of magnitude below \<open>2 ^ 1024\<close> without rounding and raises
  OverflowError on a larger one, and reads plain decimal literals (an optional sign,
  digits, at most one point); it is given no string of another literal form.
\<close>

definition digit_value :: "char \<Rightarrow> nat option" where
  "digit_value c =
     map_of [(CHR ''0'', 0), (CHR ''1'', 1), (CHR ''2'', 2), (CHR ''3'', 3), (CHR ''4'', 4),
             (CHR ''5'', 5), (CHR ''6'', 6), (CHR ''7'', 7), (CHR ''8'', 8), (CHR ''9'', 9)] c"

fun digits_value :: "nat \<Rightarrow> string \<Rightarrow> nat option" where
  "digits_value n [] = Some n"
| "digits_value n (c # cs) =
     (case digit_value c of None \<Rightarrow> None | Some d \<Rightarrow> digits_value (10 * n + d) cs)"

definition decimal_literal :: "string \<Rightarrow> real option" where
  "decimal_literal s =
     (let negative = (take 1 s = ''-'');
          body = (if take 1 s = ''-'' \<or> take 1 s = ''+'' then drop 1 s else s);
          whole = takeWhile (\<lambda>c. c \<noteq> CHR ''.'') body;
          frac = drop 1 (dropWhile (\<lambda>c. c \<noteq> CHR ''.'') body)
      in if whole = [] \<and> frac = [] then None
         else
           (case digits_value 0 whole of
              None \<Rightarrow> None
            | Some w \<Rightarrow>
                (case digits_value 0 frac of
                   None \<Rightarrow> None
                 | Some f \<Rightarrow>
                     Some ((if negative then - 1 else 1) *
                           (real w + real f / 10 ^ length frac)))))"

definition ex_builtins :: "real builtins" where
  "ex_builtins =
     \<lparr>float_of_int =
        (\<lambda>i. if \<bar>i\<bar> < 2 ^ 1024 then Inr (of_int i)
             else Inl (OverflowError ''int too large to convert to float'')),
      float_of_str =
        (\<lambda>s. case decimal_literal s of
               None \<Rightarrow> Inl (ValueError (''could not convert string to float: '' @ quoted s))
             | Some x \<Rightarrow> Inr x)\<rparr>"

definition ex_trial :: "real trial" where
  "ex_trial =
     \<lparr>study_stop = None,
      suggest_float = (\<lambda>k lo hi lg. if lo \<le> hi then Inr lo else Inl (ValueError ''low > high'')),
      suggest_int = (\<lambda>k lo hi. if int_value lo \<le> int_value hi then Inr (int_value hi)
                               else Inl (ValueError ''low > high'')),
      suggest_categorical =
        (\<lambda>k cs. case cs of [] \<Rightarrow> Inl (ValueError ''no choices'') | c # _ \<Rightarrow> Inr c)\<rparr>"

definition ex_space :: "(string \<times> real pyval) list" where
  "ex_space =
     [(''eta'', PTuple [PTuple [PFloat (1/100), PFloat (2/10)], PBool False]),
      (''max_depth'', PTuple [PTuple [PInt 3, PInt 10], PBool False])]"

definition ex_data :: "(nat, real) frame" where
  "ex_data =
     \<lparr>index = [0, 1, 2, 3],
      cols = [(''load'', [10, 20, 30, 40]), (''temp'', [5, 6, 7, 8]),
              (''horizon'', [24, 24, 24, 24])]\<rparr>"

definition rows :: "nat \<Rightarrow> nat \<Rightarrow> ('i, 'v) frame \<Rightarrow> ('i, 'v) frame" where
  "rows i n df =
     \<lparr>index = take n (drop i (index df)),
      cols = map (\<lambda>(c, vs). (c, take n (drop i vs))) (cols df)\<rparr>"

definition mae :: "(nat, real) series \<Rightarrow> real list \<Rightarrow> pyerr + real" where
  "mae y forecast =
     Inr (sum_list (map (\<lambda>(a, b). \<bar>a - b\<bar>) (zip (series_values y) forecast))
          / real (length forecast))"

definition ex_env :: "(real, nat, real) env" where
  "ex_env =
     \<lparr>utcnow = 180000000,
      split_data_train_validation_test =
        (\<lambda>df tf vf backtest. Inr (rows 0 2 df, rows 2 1 df, rows 3 1 df)),
      interpreter = ex_builtins,
      metrics = (\<lambda>name. if name = ''mae'' then Inr mae
                         else Inl (AttributeError ''module has no such attribute''))\<rparr>"

definition ex_model :: "(real, nat, real, unit) regressor" where
  "ex_model =
     \<lparr>set_params = (\<lambda>p. None),
      fit = (\<lambda>x y es n vb m cbs. None),
      predict = (\<lambda>x. Inr (map (\<lambda>i. 35) (index x)))\<rparr>"

definition ex_objective :: "(real, nat, real, unit) objective" where
  "ex_objective =
     \<lparr>input_data = ex_data,
      model = ex_model,
      pruning_function = (\<lambda>args. Inr ()),
      model_params = ex_space,
      start_time = 0,
      test_fraction = 1/10,
      validation_fraction = 1/10,
      eval_metric = ''mae'',
      verbose = False,
      args_eval = []\<rparr>"

text \<open>A splitter whose validation fold has its columns in another order.\<close>

definition ex_env_swapped :: "(real, nat, real) env" where
  "ex_env_swapped =
     ex_env\<lparr>split_data_train_validation_test :=
       (\<lambda>df tf vf backtest.
          Inr (rows 0 2 df, (rows 2 1 df)\<lparr>cols := rev (cols (rows 2 1 df))\<rparr>, rows 3 1 df))\<rparr>"

text \<open>
  Two rows of load starting on a Sunday, with one lag feature, one holiday feature, and
  weather helpers that find no weather column to work on.
\<close>

definition ex_load :: "(timestamp, real pyval) frame" where
  "ex_load =
     \<lparr>index = [\<lparr>weekday = 6, month = 1, quarter = 1\<rparr>, \<lparr>weekday = 0, month = 1, quarter = 1\<rparr>],
      cols = [(''load'', [PFloat 10, PFloat 20])]\<rparr>"

definition ex_heap :: "real pyval heap" where
  "ex_heap = (\<lambda>a. \<lparr>index = [], cols = []\<rparr>)(0 := ex_load)"

definition ex_feature_env :: "(real, real pyval) feature_env" where
  "ex_feature_env =
     \<lparr>generate_lag_feature_functions =
        (\<lambda>features horizon. [(''T-1'', \<lambda>x. Inr (PNone # butlast (series_values x)))]),
      generate_holiday_feature_functions =
        [(''IsNationalHoliday'', \<lambda>x. Inr (map (\<lambda>t. PBool False) (series_index x)))],
      add_additional_wind_features = (\<lambda>H a fs. (Inr a, H)),
      add_humidity_features = (\<lambda>H a fs. (Inr a, H))\<rparr>"

section \<open>Features and target by position\<close>

text \<open>
  What it means for \<open>x\<close> and \<open>y\<close> to be the feature matrix and the target of a fold: the
  fold has a first column, \<open>y\<close> is that column, and \<open>x\<close> is the fold without its first and
  its last column.
\<close>

definition is_x_y_of ::
  "('i, 'v) frame \<Rightarrow> ('i, 'v) frame \<Rightarrow> ('i, 'v) series \<Rightarrow> bool" where
  "is_x_y_of df x y =
     (cols df \<noteq> [] \<and>
      x = \<lparr>index = index df, cols = butlast (tl (cols df))\<rparr> \<and>
      y = \<lparr>series_index = index df, series_name = fst (hd (cols df)),
           series_values = snd (hd (cols df))\<rparr>)"

section \<open>Variations of the concrete study\<close>

text \<open>
  The same data with \<^verbatim>\<open>temp\<close> before \<^verbatim>\<open>load\<close>, and an objective asked for a metric
  that the metric module of the concrete study does not define.
\<close>

definition ex_data_misordered :: "(nat, real) frame" where
  "ex_data_misordered =
     \<lparr>index = [0, 1, 2, 3],
      cols = [(''temp'', [5, 6, 7, 8]), (''load'', [10, 20, 30, 40]),
              (''horizon'', [24, 24, 24, 24])]\<rparr>"

definition ex_objective_misordered :: "(real, nat, real, unit) objective" where
  "ex_objective_misordered = ex_objective\<lparr>input_data := ex_data_misordered\<rparr>"

definition ex_objective_rmsle :: "(real, nat, real, unit) objective" where
  "ex_objective_rmsle = ex_objective\<lparr>eval_metric := ''rmsle''\<rparr>"

text \<open>
  A trial that is not run by \<^verbatim>\<open>study.optimize\<close>, so that its study refuses to stop; a
  well-formed search space with an int bound beyond the floats; a splitter whose
  validation fold has the horizon column in the middle.
\<close>

definition ex_trial_outside_optimize :: "real trial" where
  "ex_trial_outside_optimize =
     ex_trial\<lparr>study_stop :=
       Some (RuntimeError
         ''`Study.stop` is supposed to be invoked inside an objective function or a callback.'')\<rparr>"

definition ex_space_overflow :: "(string \<times> real pyval) list" where
  "ex_space_overflow = [(''eta'', PTuple [PTuple [PFloat (1/2), PInt (10 ^ 400)], PBool False])]"

definition ex_env_horizon_inside :: "(real, nat, real) env" where
  "ex_env_horizon_inside =
     ex_env\<lparr>split_data_train_validation_test :=
       (\<lambda>df tf vf backtest.
          Inr (rows 0 2 df,
               \<lparr>index = [2], cols = [(''load'', [30]), (''horizon'', [24]), (''temp'', [7])]\<rparr>,
               rows 3 1 df))\<rparr>"

section \<open>Properties of the sampler\<close>

subsection \<open>One step and one pass of the sampling loop\<close>

lemma well_formed_cases:
  assumes "well_formed d"
  obtains (pair) a b lg where "d = PTuple [PTuple [a, b], lg]" "is_number a" "is_number b"
        | (choices) cs where "d = PList cs"
  using assms by (induction d rule: well_formed.induct) auto

lemma number_not_float_int: "is_number a \<Longrightarrow> \<not> isinstance_float a \<Longrightarrow> isinstance_int a"
  by (simp add: is_number_def)

lemma loop_step_ok:
  assumes "well_formed d" "primitives_return B T key d"
  shows "\<exists>v s. suggestion_key s = key \<and> sampled_from B T key d v s \<and>
           get_trial_parameters_loop B T ((key, d) # rest) param tr =
           get_trial_parameters_loop B T rest (AList.update key v param) (tr @ [s])"
  using assms(1)
proof (cases rule: well_formed_cases)
  case (pair a b lg)
  show ?thesis
  proof (cases "isinstance_float a \<or> isinstance_float b")
    case True
    from True assms(2) pair obtain lo where lo: "py_float B a = Inr lo"
      by (cases "py_float B a") auto
    from True assms(2) pair lo obtain hi where hi: "py_float B b = Inr hi"
      by (cases "py_float B b") auto
    from True assms(2) pair lo hi obtain v where "suggest_float T key lo hi lg = Inr v"
      by (cases "suggest_float T key lo hi lg") auto
    with True pair lo hi show ?thesis
      by (intro exI[of _ "PFloat v"] exI[of _ "SuggestFloat key lo hi lg"])
         (simp add: process_tuple_def)
  next
    case False
    with pair have ints: "isinstance_int a" "isinstance_int b"
      by (simp_all add: number_not_float_int)
    from False assms(2) pair obtain n where "suggest_int T key a b = Inr n"
      by (cases "suggest_int T key a b") auto
    with False ints pair show ?thesis
      by (intro exI[of _ "PInt n"] exI[of _ "SuggestInt key a b"])
         (simp add: process_tuple_def)
  qed
next
  case (choices cs)
  with assms(2) obtain v where "suggest_categorical T key cs = Inr v"
    by (cases "suggest_categorical T key cs") auto
  with choices show ?thesis
    by (intro exI[of _ v] exI[of _ "SuggestCategorical key cs"]) simp
qed

lemma update_fresh: "k \<notin> fst ` set al \<Longrightarrow> AList.update k v al = al @ [(k, v)]"
  by (induction al) auto

lemma loop_all_sampled:
  assumes "\<forall>(k, d) \<in> set mp. well_formed d \<and> primitives_return B T k d"
    and "distinct (map fst mp)"
    and "fst ` set param \<inter> fst ` set mp = {}"
  shows "\<exists>new sg. get_trial_parameters_loop B T mp param tr = (Inr (param @ new), tr @ sg) \<and>
           length new = length mp \<and> length sg = length mp \<and>
           list_all2 (\<lambda>(k, d) ((k', v), s). k' = k \<and> sampled_from B T k d v s) mp (zip new sg)"
  using assms
proof (induction mp arbitrary: param tr)
  case Nil
  show ?case by (intro exI[of _ "[]"]) simp
next
  case (Cons kd mp)
  obtain k d where kd: "kd = (k, d)" by (cases kd)
  from Cons.prems(1) kd have "well_formed d" "primitives_return B T k d" by auto
  from loop_step_ok[OF this] obtain v s where sf: "sampled_from B T k d v s"
    and step: "get_trial_parameters_loop B T ((k, d) # mp) param tr =
               get_trial_parameters_loop B T mp (AList.update k v param) (tr @ [s])"
    by blast
  from Cons.prems(3) kd have fresh: "k \<notin> fst ` set param" by auto
  then have upd: "AList.update k v param = param @ [(k, v)]" by (rule update_fresh)
  from Cons.prems(1) have rest: "\<forall>(k, d) \<in> set mp. well_formed d \<and> primitives_return B T k d"
    by simp
  from Cons.prems(2) kd have dist: "distinct (map fst mp)" and knew: "k \<notin> fst ` set mp"
    by auto
  from Cons.prems(3) kd knew have disj: "fst ` set (param @ [(k, v)]) \<inter> fst ` set mp = {}"
    by auto
  from Cons.IH[OF rest dist disj, of "tr @ [s]"] obtain new sg where
    r: "get_trial_parameters_loop B T mp (param @ [(k, v)]) (tr @ [s]) =
        (Inr ((param @ [(k, v)]) @ new), (tr @ [s]) @ sg)"
    and ln: "length new = length mp" and ls: "length sg = length mp"
    and all: "list_all2 (\<lambda>(k, d) ((k', v), s). k' = k \<and> sampled_from B T k d v s) mp (zip new sg)"
    by blast
  show ?case
  proof (intro exI[of _ "(k, v) # new"] exI[of _ "s # sg"] conjI)
    show "get_trial_parameters_loop B T (kd # mp) param tr =
        (Inr (param @ (k, v) # new), tr @ s # sg)"
      using kd step upd r by simp
    show "length ((k, v) # new) = length (kd # mp)" using ln by simp
    show "length (s # sg) = length (kd # mp)" using ls by simp
    show "list_all2 (\<lambda>(k, d) ((k', v), s). k' = k \<and> sampled_from B T k d v s) (kd # mp)
        (zip ((k, v) # new) (s # sg))"
      using kd sf all by simp
  qed
qed

lemma loop_prefix_ok:
  assumes "\<forall>(k, d) \<in> set pre. well_formed d \<and> primitives_return B T k d"
  shows "\<exists>param' sg. get_trial_parameters_loop B T (pre @ rest) param tr =
           get_trial_parameters_loop B T rest param' (tr @ sg) \<and>
           map suggestion_key sg = map fst pre"
  using assms
proof (induction pre arbitrary: param tr)
  case Nil
  show ?case by (intro exI[of _ param] exI[of _ "[]"]) simp
next
  case (Cons kd pre)
  obtain k d where kd: "kd = (k, d)" by (cases kd)
  from Cons.prems kd have "well_formed d" "primitives_return B T k d" by auto
  from loop_step_ok[OF this] obtain v s where s: "suggestion_key s = k"
    and step: "get_trial_parameters_loop B T ((k, d) # pre @ rest) param tr =
               get_trial_parameters_loop B T (pre @ rest) (AList.update k v param) (tr @ [s])"
    by blast
  from Cons.prems have "\<forall>(k, d) \<in> set pre. well_formed d \<and> primitives_return B T k d"
    by simp
  from Cons.IH[OF this, of "AList.update k v param" "tr @ [s]"]
  obtain param' sg where
    "get_trial_parameters_loop B T (pre @ rest) (AList.update k v param) (tr @ [s]) =
     get_trial_parameters_loop B T rest param' ((tr @ [s]) @ sg)"
    "map suggestion_key sg = map fst pre"
    by blast
  with kd s step show ?case
    by (intro exI[of _ param'] exI[of _ "s # sg"]) simp
qed

subsection \<open>A float bound beside a string\<close>

text \<open>
  C2, at a float bound beside a string. Line 44 asks only whether one bound is a float,
  so line 45 hands the other bound to \<^verbatim>\<open>float()\<close>: with \<^verbatim>\<open>(0.01, 'abc')\<close> the call ends in
  the ValueError of \<^verbatim>\<open>float('abc')\<close>, and with \<^verbatim>\<open>(0.01, '5')\<close> a float between 0.01 and 5.0
  is sampled. Neither pair is one of the four that the message of line 42 lists, and the
  pair \<^verbatim>\<open>('abc', 'abc')\<close> does get the TypeError of line 51.
\<close>

theorem process_tuple_float_beside_string:
  "process_tuple ex_builtins ex_trial ''eta''
       (PTuple [PTuple [PFloat (1/100), PStr ''abc''], PBool False]) =
     (Inl (ValueError (''could not convert string to float: '' @ quoted ''abc'')), []) \<and>
   process_tuple ex_builtins ex_trial ''eta''
       (PTuple [PTuple [PFloat (1/100), PStr ''5''], PBool False]) =
     (Inr (PFloat (1/100)), [SuggestFloat ''eta'' (1/100) 5 (PBool False)]) \<and>
   process_tuple ex_builtins ex_trial ''eta''
       (PTuple [PTuple [PStr ''abc'', PStr ''abc''], PBool False]) =
     (Inl (TypeError tuple_error), [])"
  by (simp add: process_tuple_def ex_builtins_def ex_trial_def decimal_literal_def
        digit_value_def)

subsection \<open>The messages of the configuration errors\<close>

text \<open>
  C4, as the code has it. Once the declarations before it have been sampled, a pair whose
  bounds are neither a float nor two ints fails with a TypeError whose message is the
  fixed text of line 42, and a declaration that is neither a tuple nor a list fails with a
  TypeError whose message is the fixed text of line 78: the same text for every key.
\<close>

theorem sampling_errors_fixed_message:
  assumes "\<forall>(k, d) \<in> set pre. well_formed d \<and> primitives_return B T k d"
  shows "(\<not> isinstance_float a \<and> \<not> isinstance_float b \<and> \<not> (isinstance_int a \<and> isinstance_int b) \<longrightarrow>
            fst (get_trial_parameters B T (pre @ (key, PTuple [PTuple [a, b], lg]) # rest)) =
              Inl (TypeError tuple_error)) \<and>
         (\<not> isinstance_tuple d \<and> \<not> isinstance_list d \<longrightarrow>
            fst (get_trial_parameters B T (pre @ (key, d) # rest)) =
              Inl (TypeError ''Possible input values: tuple, list''))"
proof (intro conjI impI)
  assume h: "\<not> isinstance_float a \<and> \<not> isinstance_float b \<and> \<not> (isinstance_int a \<and> isinstance_int b)"
  from loop_prefix_ok[OF assms, of "(key, PTuple [PTuple [a, b], lg]) # rest" "[]" "[]"]
  obtain param' sg where
    "get_trial_parameters_loop B T (pre @ (key, PTuple [PTuple [a, b], lg]) # rest) [] [] =
     get_trial_parameters_loop B T ((key, PTuple [PTuple [a, b], lg]) # rest) param' ([] @ sg)"
    by blast
  with h show "fst (get_trial_parameters B T (pre @ (key, PTuple [PTuple [a, b], lg]) # rest)) =
      Inl (TypeError tuple_error)"
    by (auto simp: get_trial_parameters_def process_tuple_def)
next
  assume h: "\<not> isinstance_tuple d \<and> \<not> isinstance_list d"
  from loop_prefix_ok[OF assms, of "(key, d) # rest" "[]" "[]"]
  obtain param' sg where
    "get_trial_parameters_loop B T (pre @ (key, d) # rest) [] [] =
     get_trial_parameters_loop B T ((key, d) # rest) param' ([] @ sg)"
    by blast
  with h show "fst (get_trial_parameters B T (pre @ (key, d) # rest)) =
      Inl (TypeError ''Possible input values: tuple, list'')"
    by (simp add: get_trial_parameters_def)
qed

text \<open>
  Both errors after one good declaration.
\<close>

theorem sampling_errors_fixed_message_witness:
  "list_all (\<lambda>(k, d). well_formed d \<and> primitives_return ex_builtins ex_trial k d) [hd ex_space] \<and>
   fst (get_trial_parameters ex_builtins ex_trial
          ([hd ex_space] @
           (''booster'', PTuple [PTuple [PStr ''gbtree'', PStr ''dart''], PBool False]) # [])) =
     Inl (TypeError tuple_error) \<and>
   fst (get_trial_parameters ex_builtins ex_trial ([hd ex_space] @ (''max_depth'', PInt 5) # [])) =
     Inl (TypeError ''Possible input values: tuple, list'')"
proof -
  have w: "\<forall>(k, d) \<in> set [hd ex_space]. well_formed d \<and> primitives_return ex_builtins ex_trial k d"
    by (simp add: ex_space_def ex_builtins_def ex_trial_def is_number_def)
  note pair_case = sampling_errors_fixed_message[OF w, where a = "PStr ''gbtree''"
      and b = "PStr ''dart''" and key = "''booster''" and lg = "PBool False" and rest = "[]",
      THEN conjunct1, THEN mp]
  note shape_case = sampling_errors_fixed_message[OF w, where d = "PInt 5"
      and key = "''max_depth''" and rest = "[]", THEN conjunct2, THEN mp]
  have a: "fst (get_trial_parameters ex_builtins ex_trial
          ([hd ex_space] @
           (''booster'', PTuple [PTuple [PStr ''gbtree'', PStr ''dart''], PBool False]) # [])) =
     Inl (TypeError tuple_error)"
    by (rule pair_case) simp
  have b: "fst (get_trial_parameters ex_builtins ex_trial
          ([hd ex_space] @ (''max_depth'', PInt 5) # [])) =
     Inl (TypeError ''Possible input values: tuple, list'')"
    by (rule shape_case) simp
  from w have "list_all (\<lambda>(k, d). well_formed d \<and> primitives_return ex_builtins ex_trial k d)
      [hd ex_space]"
    by (simp add: list_all_iff)
  with a b show ?thesis by blast
qed

text \<open>
  Neither message contains the key \<^verbatim>\<open>eta\<close> of the declaration that caused it.
\<close>

theorem sampling_error_key_counterexample:
  "get_trial_parameters ex_builtins ex_trial
     [(''eta'', PTuple [PTuple [PStr ''gbtree'', PStr ''dart''], PBool False])] =
     (Inl (TypeError tuple_error), []) \<and>
   \<not> sublist ''eta'' tuple_error \<and>
   get_trial_parameters ex_builtins ex_trial [(''eta'', PInt 5)] =
     (Inl (TypeError ''Possible input values: tuple, list''), []) \<and>
   \<not> sublist ''eta'' ''Possible input values: tuple, list''"
proof -
  have "\<not> sublist ''eta'' tuple_error" by code_simp
  moreover have "\<not> sublist ''eta'' ''Possible input values: tuple, list''" by code_simp
  ultimately show ?thesis
    by (simp add: get_trial_parameters_def process_tuple_def)
qed

subsection \<open>One entry per key, in one pass\<close>

text \<open>
  C7, as the code has it. For a search space (a dict, so with distinct keys) whose
  declarations are all well formed, and on which the interpreter's conversions and the
  trial's suggest calls return, \<^verbatim>\<open>get_trial_parameters\<close> returns a dict with exactly the
  keys of the search space, in order, after exactly one suggest call per declaration, in
  order; the value of each entry is the value that the suggest call of its declaration
  returned.
\<close>

theorem get_trial_parameters_complete:
  assumes "distinct (map fst space)"
    and "\<forall>(k, d) \<in> set space. well_formed d \<and> primitives_return B T k d"
  shows "\<exists>param sg. get_trial_parameters B T space = (Inr param, sg) \<and>
           map fst param = map fst space \<and>
           length sg = length space \<and>
           list_all2 (\<lambda>(k, d) ((k', v), s). k' = k \<and> sampled_from B T k d v s)
             space (zip param sg)"
proof -
  from loop_all_sampled[OF assms(2) assms(1), of "[]" "[]"] obtain param sg where
    r: "get_trial_parameters B T space = (Inr param, sg)"
    and lp: "length param = length space" and ls: "length sg = length space"
    and all: "list_all2 (\<lambda>(k, d) ((k', v), s). k' = k \<and> sampled_from B T k d v s)
                space (zip param sg)"
    unfolding get_trial_parameters_def by auto
  have "map fst param = map fst space"
  proof (rule nth_equalityI)
    show "length (map fst param) = length (map fst space)" using lp by simp
    fix i assume "i < length (map fst param)"
    then have i: "i < length space" "i < length param" "i < length sg" using lp ls by simp_all
    from list_all2_nthD[OF all i(1)] i
    show "map fst param ! i = map fst space ! i"
      by (cases "space ! i"; cases "param ! i") auto
  qed
  with r ls all show ?thesis by blast
qed

text \<open>
  The search space of the end-to-end example, and what the sampler returns on it.
\<close>

theorem get_trial_parameters_complete_witness:
  "distinct (map fst ex_space) \<and>
   list_all (\<lambda>(k, d). well_formed d \<and> primitives_return ex_builtins ex_trial k d) ex_space \<and>
   get_trial_parameters ex_builtins ex_trial ex_space =
     (Inr [(''eta'', PFloat (1/100)), (''max_depth'', PInt 10)],
      [SuggestFloat ''eta'' (1/100) (2/10) (PBool False),
       SuggestInt ''max_depth'' (PInt 3) (PInt 10)]) \<and>
   (\<exists>param sg. get_trial_parameters ex_builtins ex_trial ex_space = (Inr param, sg) \<and>
      map fst param = map fst ex_space \<and>
      length sg = length ex_space \<and>
      list_all2 (\<lambda>(k, d) ((k', v), s). k' = k \<and> sampled_from ex_builtins ex_trial k d v s)
        ex_space (zip param sg))"
proof -
  have d: "distinct (map fst ex_space)" by (simp add: ex_space_def)
  have w: "\<forall>(k, d) \<in> set ex_space. well_formed d \<and> primitives_return ex_builtins ex_trial k d"
    by (simp add: ex_space_def ex_builtins_def ex_trial_def is_number_def)
  from w have w': "list_all (\<lambda>(k, d). well_formed d \<and> primitives_return ex_builtins ex_trial k d)
      ex_space"
    by (simp add: list_all_iff)
  have v: "get_trial_parameters ex_builtins ex_trial ex_space =
     (Inr [(''eta'', PFloat (1/100)), (''max_depth'', PInt 10)],
      [SuggestFloat ''eta'' (1/100) (2/10) (PBool False),
       SuggestInt ''max_depth'' (PInt 3) (PInt 10)])"
    by (simp add: get_trial_parameters_def process_tuple_def ex_space_def ex_builtins_def
          ex_trial_def)
  note t = get_trial_parameters_complete[OF d w]
  from d w' v t show ?thesis by blast
qed

text \<open>
  A well-formed search space on which the sampler returns no mapping: the bounds are a
  float and an int, and \<^verbatim>\<open>float()\<close> raises OverflowError on the int.
\<close>

theorem get_trial_parameters_overflow_counterexample:
  "distinct (map fst ex_space_overflow) \<and>
   list_all (\<lambda>(k, d). well_formed d) ex_space_overflow \<and>
   get_trial_parameters ex_builtins ex_trial ex_space_overflow =
     (Inl (OverflowError ''int too large to convert to float''), [])"
  by (simp add: get_trial_parameters_def process_tuple_def ex_space_overflow_def
        ex_builtins_def is_number_def)

section \<open>Properties of the objective\<close>

subsection \<open>Evaluation of the concrete study, and the trace of a trial\<close>

lemmas ex_defs = ex_env_def ex_objective_def ex_model_def ex_trial_def ex_builtins_def ex_space_def
  ex_data_def rows_def mae_def ex_env_swapped_def ex_env_horizon_inside_def

lemmas call_defs = call_def split_fit_score_def fit_and_score_def score_def
  get_trial_parameters_def process_tuple_def
  columns_def column_order_wrong_def split_x_y_def iloc_0_def iloc_1_to_last_def budget_def
  EARLY_STOPPING_ROUNDS_def Let_def

lemma ex_call:
  "call ex_env ex_objective ex_trial =
   (Inr (Loss 5),
    [StudyStop,
     SplitData ex_data (1/10) (1/10) True,
     Suggest (SuggestFloat ''eta'' (1/100) (2/10) (PBool False)),
     Suggest (SuggestInt ''max_depth'' (PInt 3) (PInt 10)),
     PruningFunction [],
     SetParams [(''eta'', PFloat (1/100)), (''max_depth'', PInt 10)],
     Fit \<lparr>index = [0, 1], cols = [(''temp'', [5, 6])]\<rparr>
         \<lparr>series_index = [0, 1], series_name = ''load'', series_values = [10, 20]\<rparr>
         [(\<lparr>index = [0, 1], cols = [(''temp'', [5, 6])]\<rparr>,
           \<lparr>series_index = [0, 1], series_name = ''load'', series_values = [10, 20]\<rparr>),
          (\<lparr>index = [2], cols = [(''temp'', [7])]\<rparr>,
           \<lparr>series_index = [2], series_name = ''load'', series_values = [30]\<rparr>)]
         10 False ''mae'' [()],
     Predict \<lparr>index = [3], cols = [(''temp'', [8])]\<rparr>,
     Metric ''mae'' \<lparr>series_index = [3], series_name = ''load'', series_values = [40]\<rparr> [35]])"
  by (simp add: call_defs ex_defs)

lemma fit_and_score_prefix:
  "fit_and_score E self T (p @ tr) tx ty vx vy sx sy =
   (case fit_and_score E self T tr tx ty vx vy sx sy of (r, evs) \<Rightarrow> (r, p @ evs))"
  by (simp add: fit_and_score_def Let_def split: prod.splits sum.splits option.splits)

lemma score_utcnow: "score (E\<lparr>utcnow := t\<rparr>) self y f = score E self y f"
  by (simp add: score_def)

lemma fit_and_score_utcnow:
  "fit_and_score (E\<lparr>utcnow := t\<rparr>) self T tr tx ty vx vy sx sy =
   fit_and_score E self T tr tx ty vx vy sx sy"
  unfolding fit_and_score_def score_utcnow by simp

lemma split_x_y_is_x_y_of: "split_x_y df = Inr (x, y) \<longleftrightarrow> is_x_y_of df x y"
  by (cases df; cases "cols df") (auto simp: split_x_y_def iloc_0_def iloc_1_to_last_def is_x_y_of_def)

lemma is_x_y_of_last_excluded:
  assumes "is_x_y_of df x y" and "distinct (columns df)"
  shows "last (columns df) \<notin> set (columns x)"
proof (cases "tl (columns df) = []")
  case True
  with assms(1) show ?thesis
    by (simp add: is_x_y_of_def columns_def map_butlast[symmetric] map_tl[symmetric])
next
  case False
  from assms(1) have ne: "columns df \<noteq> []" and x: "columns x = butlast (tl (columns df))"
    by (simp_all add: is_x_y_of_def columns_def map_butlast map_tl)
  from ne False have l: "last (columns df) = last (tl (columns df))"
    by (simp add: last_tl)
  from assms(2) have "distinct (tl (columns df))" by (rule distinct_tl)
  then have "distinct (butlast (tl (columns df)) @ [last (tl (columns df))])"
    using False by simp
  then show ?thesis using x l by simp
qed

lemma is_x_y_of_shape:
  assumes "is_x_y_of df x y" and "column_order_wrong (columns df) = Inr False"
  shows "columns df = ''load'' # columns x @ [''horizon'']"
proof -
  from assms(2) have ne: "columns df \<noteq> []" and h: "hd (columns df) = ''load''"
    and l: "last (columns df) = ''horizon''"
    by (auto simp: column_order_wrong_def split: if_splits)
  from h l have two: "tl (columns df) \<noteq> []"
    using ne by (cases "columns df") (auto split: if_splits)
  have "columns df = hd (columns df) # butlast (tl (columns df)) @ [last (columns df)]"
    using ne two by (cases "columns df") (auto simp: last_tl)
  moreover have "columns x = butlast (tl (columns df))"
    using assms(1) by (simp add: is_x_y_of_def columns_def map_butlast map_tl)
  ultimately show ?thesis using h l by simp
qed

lemma fit_and_score_no_stop:
  "StudyStop \<notin> set tr \<Longrightarrow> StudyStop \<notin> set (snd (fit_and_score E self T tr tx ty vx vy sx sy))"
  by (auto simp: fit_and_score_def score_def Let_def split: prod.splits sum.splits option.splits if_splits)

lemma fit_and_score_events:
  assumes "ev \<in> set (snd (fit_and_score E self T tr tx ty vx vy sx sy))"
  shows "ev \<in> set tr \<or> (\<exists>s. ev = Suggest s) \<or> (\<exists>a. ev = PruningFunction a) \<or>
         (\<exists>p. ev = SetParams p) \<or> (\<exists>m. ev = Print m) \<or>
         (\<exists>n vb m cbs. ev = Fit tx ty [(tx, ty), (vx, vy)] n vb m cbs) \<or>
         ev = Predict sx \<or> (\<exists>m f. ev = Metric m sy f)"
  using assms
  by (auto simp: fit_and_score_def score_def Let_def
        split: prod.splits sum.splits option.splits if_splits)

lemma split_fit_score_utcnow:
  "split_fit_score (E\<lparr>utcnow := t\<rparr>) self T tr0 = split_fit_score E self T tr0"
  unfolding split_fit_score_def fit_and_score_utcnow by simp

lemma split_fit_score_prefix:
  "split_fit_score E self T (p @ tr0) =
   (case split_fit_score E self T tr0 of (r, evs) \<Rightarrow> (r, p @ evs))"
  by (simp add: split_fit_score_def Let_def fit_and_score_prefix
        split: sum.splits prod.splits bool.splits)

lemma split_fit_score_no_stop:
  "StudyStop \<notin> set tr0 \<Longrightarrow> StudyStop \<notin> set (snd (split_fit_score E self T tr0))"
  by (auto simp: split_fit_score_def Let_def fit_and_score_no_stop
        split: sum.splits prod.splits bool.splits)

lemma split_fit_score_starts:
  "\<exists>rest. snd (split_fit_score E self T tr0) =
     tr0 @ SplitData (input_data self) (test_fraction self) (validation_fraction self) True # rest"
proof -
  have "\<exists>rest. snd (fit_and_score E self T (p @ []) tx ty vx vy sx sy) = p @ rest"
    for p tx ty vx vy sx sy
    unfolding fit_and_score_prefix by (simp split: prod.splits)
  from this[of "tr0 @ [SplitData (input_data self) (test_fraction self)
      (validation_fraction self) True]"]
  show ?thesis
    by (auto simp: split_fit_score_def Let_def split: sum.splits prod.splits bool.splits)
qed

lemma call_stop_returns:
  assumes "stop_returns E self T"
  shows "call E self T =
         split_fit_score E self T (if utcnow E - start_time self > budget then [StudyStop] else [])"
  using assms by (simp add: call_def stop_returns_def Let_def)

lemma call_stop_raises:
  assumes "utcnow E - start_time self > budget" and "study_stop T = Some e"
  shows "call E self T = (Inl e, [StudyStop])"
  using assms by (simp add: call_def Let_def)

lemma call_at_start_time:
  "call (E\<lparr>utcnow := start_time self\<rparr>) self T = split_fit_score E self T []"
  by (simp add: call_def Let_def budget_def split_fit_score_utcnow)

subsection \<open>The time budget\<close>

text \<open>
  C1, as the code has it. When the time since \<^verbatim>\<open>start_time\<close> exceeds the two-minute
  budget, the first thing the call does is to ask the study to stop. When that request
  returns, the call goes on exactly as a call within the budget does: the split next, the
  same further calls in the same order, no second stop request, and the same result, be
  it a loss or an exception of a collaborator. When that request raises, its exception
  ends the call and nothing else is called.
\<close>

theorem stop_signal_first:
  assumes "utcnow E - start_time self > budget"
  shows "(\<exists>rest. snd (call E self T) = StudyStop # rest) \<and>
         (study_stop T = None \<longrightarrow>
            call E self T =
              (fst (call (E\<lparr>utcnow := start_time self\<rparr>) self T),
               StudyStop # snd (call (E\<lparr>utcnow := start_time self\<rparr>) self T)) \<and>
            StudyStop \<notin> set (snd (call (E\<lparr>utcnow := start_time self\<rparr>) self T)) \<and>
            (\<exists>rest. snd (call E self T) =
               StudyStop # SplitData (input_data self) (test_fraction self)
                             (validation_fraction self) True # rest)) \<and>
         (\<forall>e. study_stop T = Some e \<longrightarrow> call E self T = (Inl e, [StudyStop]))"
proof -
  have raises: "call E self T = (Inl e, [StudyStop])" if "study_stop T = Some e" for e
    using assms that by (rule call_stop_raises)
  have returns: "call E self T = split_fit_score E self T [StudyStop]" if "study_stop T = None"
    using assms that by (simp add: call_def Let_def)
  have pre: "split_fit_score E self T [StudyStop] =
      (fst (split_fit_score E self T []), StudyStop # snd (split_fit_score E self T []))"
    using split_fit_score_prefix[of E self T "[StudyStop]" "[]"] by (simp split: prod.splits)
  have a: "call E self T =
      (fst (call (E\<lparr>utcnow := start_time self\<rparr>) self T),
       StudyStop # snd (call (E\<lparr>utcnow := start_time self\<rparr>) self T))" if "study_stop T = None"
    using returns[OF that] pre by (simp add: call_at_start_time)
  have b: "StudyStop \<notin> set (snd (call (E\<lparr>utcnow := start_time self\<rparr>) self T))"
    unfolding call_at_start_time by (rule split_fit_score_no_stop) simp
  have c: "\<exists>rest. snd (call E self T) =
      StudyStop # SplitData (input_data self) (test_fraction self)
                    (validation_fraction self) True # rest" if "study_stop T = None"
    using split_fit_score_starts[of E self T "[StudyStop]"] returns[OF that] by simp
  have first: "\<exists>rest. snd (call E self T) = StudyStop # rest"
  proof (cases "study_stop T")
    case None
    from c[OF this] show ?thesis by blast
  next
    case (Some e)
    from raises[OF this] show ?thesis by simp
  qed
  from first a b c raises show ?thesis by blast
qed

text \<open>
  Three minutes after \<^verbatim>\<open>start_time\<close>, with a study that accepts the request: the stop
  comes first, the split second, and the trial still returns its loss.
\<close>

theorem stop_signal_first_witness:
  "utcnow ex_env - start_time ex_objective > budget \<and>
   utcnow ex_env - start_time ex_objective = 180000000 \<and>
   study_stop ex_trial = None \<and>
   fst (call ex_env ex_objective ex_trial) = Inr (Loss 5) \<and>
   hd (snd (call ex_env ex_objective ex_trial)) = StudyStop \<and>
   hd (tl (snd (call ex_env ex_objective ex_trial))) = SplitData ex_data (1/10) (1/10) True \<and>
   StudyStop \<notin> set (tl (snd (call ex_env ex_objective ex_trial)))"
proof -
  have over: "utcnow ex_env - start_time ex_objective > budget"
    by (simp add: ex_env_def ex_objective_def budget_def)
  have t: "utcnow ex_env - start_time ex_objective = 180000000"
    by (simp add: ex_env_def ex_objective_def)
  have ret: "study_stop ex_trial = None" by (simp add: ex_trial_def)
  note s = stop_signal_first[OF over, of ex_trial, THEN conjunct2, THEN conjunct1, THEN mp, OF ret]
  from s have tail: "StudyStop \<notin> set (tl (snd (call ex_env ex_objective ex_trial)))"
    by (metis list.sel(3) snd_conv)
  from s have h: "hd (snd (call ex_env ex_objective ex_trial)) = StudyStop"
    by (metis list.sel(1) snd_conv)
  have r: "fst (call ex_env ex_objective ex_trial) = Inr (Loss 5)"
    by (simp add: ex_call)
  have sp: "hd (tl (snd (call ex_env ex_objective ex_trial))) = SplitData ex_data (1/10) (1/10) True"
    by (simp add: ex_call)
  from over t ret r h sp tail show ?thesis by blast
qed

text \<open>
  Three minutes after \<^verbatim>\<open>start_time\<close>, with a trial that is not run by
  \<^verbatim>\<open>study.optimize\<close>: the RuntimeError of \<^verbatim>\<open>Study.stop\<close> comes out of the objective, and
  the trial does not run.
\<close>

theorem stop_raises_counterexample:
  "utcnow ex_env - start_time ex_objective > budget \<and>
   call ex_env ex_objective ex_trial_outside_optimize =
     (Inl (RuntimeError
        ''`Study.stop` is supposed to be invoked inside an objective function or a callback.''),
      [StudyStop])"
  by (simp add: call_def Let_def budget_def ex_env_def ex_objective_def
        ex_trial_outside_optimize_def)

subsection \<open>The column order of the train fold\<close>

text \<open>
  C5. When the first column of the train fold is not \<^verbatim>\<open>load\<close> or its last column is not
  \<^verbatim>\<open>horizon\<close>, the trial ends in an exception and the regressor is never called. Unless a
  stop request has raised before, the exception is the RuntimeError of lines 131 to 134,
  and the only calls made are the stop request, if due, and the split.
\<close>

theorem column_order_failure_before_fit:
  assumes "split_data_train_validation_test E (input_data self) (test_fraction self)
             (validation_fraction self) True = Inr (train_data, validation_data, test_data)"
    and "columns train_data \<noteq> []"
    and "hd (columns train_data) \<noteq> ''load'' \<or> last (columns train_data) \<noteq> ''horizon''"
  shows "(\<exists>e. fst (call E self T) = Inl e) \<and>
         list_all (\<lambda>ev. \<not> is_regressor_call ev) (snd (call E self T)) \<and>
         (stop_returns E self T \<longrightarrow>
            fst (call E self T) = Inl (RuntimeError column_error) \<and>
            snd (call E self T) =
              (if utcnow E - start_time self > budget then [StudyStop] else []) @
              [SplitData (input_data self) (test_fraction self) (validation_fraction self) True])"
proof -
  have body: "split_fit_score E self T tr0 =
      (Inl (RuntimeError column_error),
       tr0 @ [SplitData (input_data self) (test_fraction self) (validation_fraction self) True])"
    for tr0
    using assms by (auto simp: split_fit_score_def Let_def column_order_wrong_def)
  show ?thesis
  proof (cases "stop_returns E self T")
    case True
    from call_stop_returns[OF this] body True show ?thesis by simp
  next
    case False
    then obtain e where "utcnow E - start_time self > budget" "study_stop T = Some e"
      by (auto simp: stop_returns_def)
    from call_stop_raises[OF this] False show ?thesis by simp
  qed
qed

text \<open>
  Data whose first column is \<^verbatim>\<open>temp\<close>.
\<close>

theorem column_order_failure_before_fit_witness:
  "split_data_train_validation_test ex_env (input_data ex_objective_misordered)
     (test_fraction ex_objective_misordered) (validation_fraction ex_objective_misordered) True =
     Inr (rows 0 2 ex_data_misordered, rows 2 1 ex_data_misordered, rows 3 1 ex_data_misordered) \<and>
   columns (rows 0 2 ex_data_misordered) = [''temp'', ''load'', ''horizon''] \<and>
   stop_returns ex_env ex_objective_misordered ex_trial \<and>
   fst (call ex_env ex_objective_misordered ex_trial) = Inl (RuntimeError column_error) \<and>
   list_all (\<lambda>ev. \<not> is_regressor_call ev) (snd (call ex_env ex_objective_misordered ex_trial))"
proof -
  have sp: "split_data_train_validation_test ex_env (input_data ex_objective_misordered)
     (test_fraction ex_objective_misordered) (validation_fraction ex_objective_misordered) True =
     Inr (rows 0 2 ex_data_misordered, rows 2 1 ex_data_misordered, rows 3 1 ex_data_misordered)"
    by (simp add: ex_env_def ex_objective_misordered_def)
  have cs: "columns (rows 0 2 ex_data_misordered) = [''temp'', ''load'', ''horizon'']"
    by (simp add: columns_def rows_def ex_data_misordered_def)
  have ne: "columns (rows 0 2 ex_data_misordered) \<noteq> []"
    and wrong: "hd (columns (rows 0 2 ex_data_misordered)) \<noteq> ''load'' \<or>
                last (columns (rows 0 2 ex_data_misordered)) \<noteq> ''horizon''"
    by (simp_all add: cs)
  have st: "stop_returns ex_env ex_objective_misordered ex_trial"
    by (simp add: stop_returns_def ex_trial_def)
  note t = column_order_failure_before_fit[OF sp ne wrong, of ex_trial]
  from t[THEN conjunct2, THEN conjunct2, THEN mp, OF st] t[THEN conjunct2, THEN conjunct1] sp cs st
  show ?thesis by blast
qed

subsection \<open>What the regressor and the metric are given\<close>

text \<open>
  C6, as the code has it. Whatever a trial does, every \<^verbatim>\<open>fit\<close> call gets the train
  fold's column 0 as target and its columns but the first and the last as features, with
  the evaluation set made of that pair and the same pair of the validation fold; every
  \<^verbatim>\<open>predict\<close> call gets the test fold's columns but the first and the last; every metric
  call gets the test fold's column 0. The train fold's columns are then \<^verbatim>\<open>load\<close>, the
  features, \<^verbatim>\<open>horizon\<close>. The same holds of a validation or test fold whose columns are in
  that order, which the objective does not check; for any fold with distinct column names
  the last column is not among the features.
\<close>

theorem features_and_target_by_position:
  assumes "split_data_train_validation_test E (input_data self) (test_fraction self)
             (validation_fraction self) True = Inr (train_data, validation_data, test_data)"
  shows "\<forall>ev \<in> set (snd (call E self T)).
           (case ev of
              Fit x y eval_set n vb m cbs \<Rightarrow>
                is_x_y_of train_data x y \<and>
                columns train_data = ''load'' # columns x @ [''horizon''] \<and>
                (\<exists>vx vy. is_x_y_of validation_data vx vy \<and> eval_set = [(x, y), (vx, vy)] \<and>
                   (column_order_wrong (columns validation_data) = Inr False \<longrightarrow>
                      columns validation_data = ''load'' # columns vx @ [''horizon'']) \<and>
                   (distinct (columns validation_data) \<longrightarrow>
                      last (columns validation_data) \<notin> set (columns vx)))
            | Predict x \<Rightarrow>
                (\<exists>y. is_x_y_of test_data x y) \<and>
                (column_order_wrong (columns test_data) = Inr False \<longrightarrow>
                   columns test_data = ''load'' # columns x @ [''horizon'']) \<and>
                (distinct (columns test_data) \<longrightarrow> last (columns test_data) \<notin> set (columns x))
            | Metric m y forecast \<Rightarrow> (\<exists>x. is_x_y_of test_data x y)
            | _ \<Rightarrow> True)"
proof
  fix ev
  assume ev: "ev \<in> set (snd (call E self T))"
  let ?tr0 = "if utcnow E - start_time self > budget then [StudyStop] else []"
  let ?tr1 = "?tr0 @
      [SplitData (input_data self) (test_fraction self) (validation_fraction self) True]"
  let ?goal = "case ev of
              Fit x y eval_set n vb m cbs \<Rightarrow>
                is_x_y_of train_data x y \<and>
                columns train_data = ''load'' # columns x @ [''horizon''] \<and>
                (\<exists>vx vy. is_x_y_of validation_data vx vy \<and> eval_set = [(x, y), (vx, vy)] \<and>
                   (column_order_wrong (columns validation_data) = Inr False \<longrightarrow>
                      columns validation_data = ''load'' # columns vx @ [''horizon'']) \<and>
                   (distinct (columns validation_data) \<longrightarrow>
                      last (columns validation_data) \<notin> set (columns vx)))
            | Predict x \<Rightarrow>
                (\<exists>y. is_x_y_of test_data x y) \<and>
                (column_order_wrong (columns test_data) = Inr False \<longrightarrow>
                   columns test_data = ''load'' # columns x @ [''horizon'']) \<and>
                (distinct (columns test_data) \<longrightarrow> last (columns test_data) \<notin> set (columns x))
            | Metric m y forecast \<Rightarrow> (\<exists>x. is_x_y_of test_data x y)
            | _ \<Rightarrow> True"
  have early: "ev = StudyStop \<or> ev = SplitData (input_data self) (test_fraction self)
      (validation_fraction self) True" if "ev \<in> set ?tr1"
    using that by (auto split: if_splits)
  show ?goal
  proof (cases "stop_returns E self T")
    case False
    then obtain e where "utcnow E - start_time self > budget" "study_stop T = Some e"
      by (auto simp: stop_returns_def)
    from call_stop_raises[OF this] ev have "ev = StudyStop" by simp
    then show ?thesis by simp
  next
    case True
    note c0 = call_stop_returns[OF True]
    show ?thesis
    proof (cases "\<exists>tx ty vx vy sx sy. column_order_wrong (columns train_data) = Inr False \<and>
        split_x_y train_data = Inr (tx, ty) \<and> split_x_y validation_data = Inr (vx, vy) \<and>
        split_x_y test_data = Inr (sx, sy)")
      case False
      with assms have "snd (split_fit_score E self T ?tr0) = ?tr1"
        by (auto simp: split_fit_score_def Let_def split: sum.splits bool.splits)
      with ev c0 have "ev \<in> set ?tr1" by simp
      from early[OF this] show ?thesis by auto
    next
      case True
      then obtain tx ty vx vy sx sy where ok: "column_order_wrong (columns train_data) = Inr False"
        and tr: "split_x_y train_data = Inr (tx, ty)"
        and va: "split_x_y validation_data = Inr (vx, vy)"
        and te: "split_x_y test_data = Inr (sx, sy)"
        by blast
      from assms ok tr va te c0
      have c: "call E self T = fit_and_score E self T ?tr1 tx ty vx vy sx sy"
        by (simp add: split_fit_score_def Let_def)
      from tr have txy: "is_x_y_of train_data tx ty" by (simp add: split_x_y_is_x_y_of)
      from va have vxy: "is_x_y_of validation_data vx vy" by (simp add: split_x_y_is_x_y_of)
      from te have sxy: "is_x_y_of test_data sx sy" by (simp add: split_x_y_is_x_y_of)
      note shape = is_x_y_of_shape[OF txy ok]
      from fit_and_score_events[OF ev[unfolded c]]
      consider "ev \<in> set ?tr1" | s where "ev = Suggest s" | a where "ev = PruningFunction a"
        | p where "ev = SetParams p" | m where "ev = Print m"
        | n vb m cbs where "ev = Fit tx ty [(tx, ty), (vx, vy)] n vb m cbs"
        | "ev = Predict sx" | m f where "ev = Metric m sy f"
        by blast
      then show ?thesis
      proof cases
        case 1
        from early[OF this] show ?thesis by auto
      next
        case 6
        with txy vxy shape is_x_y_of_last_excluded[OF vxy] is_x_y_of_shape[OF vxy]
        show ?thesis by auto
      next
        case 7
        with sxy is_x_y_of_last_excluded[OF sxy] is_x_y_of_shape[OF sxy] show ?thesis by auto
      next
        case 8
        with sxy show ?thesis by auto
      qed simp_all
    qed
  qed
qed

text \<open>
  The \<^verbatim>\<open>fit\<close> and \<^verbatim>\<open>predict\<close> calls of the concrete study.
\<close>

theorem features_and_target_by_position_witness:
  "split_data_train_validation_test ex_env (input_data ex_objective) (test_fraction ex_objective)
     (validation_fraction ex_objective) True =
     Inr (rows 0 2 ex_data, rows 2 1 ex_data, rows 3 1 ex_data) \<and>
   Fit \<lparr>index = [0, 1], cols = [(''temp'', [5, 6])]\<rparr>
       \<lparr>series_index = [0, 1], series_name = ''load'', series_values = [10, 20]\<rparr>
       [(\<lparr>index = [0, 1], cols = [(''temp'', [5, 6])]\<rparr>,
         \<lparr>series_index = [0, 1], series_name = ''load'', series_values = [10, 20]\<rparr>),
        (\<lparr>index = [2], cols = [(''temp'', [7])]\<rparr>,
         \<lparr>series_index = [2], series_name = ''load'', series_values = [30]\<rparr>)]
       10 False ''mae'' [()] \<in> set (snd (call ex_env ex_objective ex_trial)) \<and>
   is_x_y_of (rows 0 2 ex_data) \<lparr>index = [0, 1], cols = [(''temp'', [5, 6])]\<rparr>
       \<lparr>series_index = [0, 1], series_name = ''load'', series_values = [10, 20]\<rparr> \<and>
   columns (rows 0 2 ex_data) =
     ''load'' # columns \<lparr>index = [0 :: nat, 1], cols = [(''temp'', [5 :: real, 6])]\<rparr> @ [''horizon''] \<and>
   Predict \<lparr>index = [3], cols = [(''temp'', [8])]\<rparr> \<in> set (snd (call ex_env ex_objective ex_trial)) \<and>
   (\<exists>y. is_x_y_of (rows 3 1 ex_data) \<lparr>index = [3], cols = [(''temp'', [8])]\<rparr> y)"
proof -
  have sp: "split_data_train_validation_test ex_env (input_data ex_objective)
     (test_fraction ex_objective) (validation_fraction ex_objective) True =
     Inr (rows 0 2 ex_data, rows 2 1 ex_data, rows 3 1 ex_data)"
    by (simp add: ex_env_def ex_objective_def)
  note every = features_and_target_by_position[OF sp, of ex_trial, THEN bspec]
  have f: "Fit \<lparr>index = [0, 1], cols = [(''temp'', [5, 6])]\<rparr>
       \<lparr>series_index = [0, 1], series_name = ''load'', series_values = [10, 20]\<rparr>
       [(\<lparr>index = [0, 1], cols = [(''temp'', [5, 6])]\<rparr>,
         \<lparr>series_index = [0, 1], series_name = ''load'', series_values = [10, 20]\<rparr>),
        (\<lparr>index = [2], cols = [(''temp'', [7])]\<rparr>,
         \<lparr>series_index = [2], series_name = ''load'', series_values = [30]\<rparr>)]
       10 False ''mae'' [()] \<in> set (snd (call ex_env ex_objective ex_trial))"
    by (simp add: ex_call)
  have p: "Predict \<lparr>index = [3], cols = [(''temp'', [8])]\<rparr>
       \<in> set (snd (call ex_env ex_objective ex_trial))"
    by (simp add: ex_call)
  from every[OF f] have f': "is_x_y_of (rows 0 2 ex_data) \<lparr>index = [0, 1], cols = [(''temp'', [5, 6])]\<rparr>
       \<lparr>series_index = [0, 1], series_name = ''load'', series_values = [10, 20]\<rparr>"
    and f'': "columns (rows 0 2 ex_data) =
     ''load'' # columns \<lparr>index = [0 :: nat, 1], cols = [(''temp'', [5 :: real, 6])]\<rparr> @ [''horizon'']"
    by simp_all
  from every[OF p] have p': "\<exists>y. is_x_y_of (rows 3 1 ex_data) \<lparr>index = [3], cols = [(''temp'', [8])]\<rparr> y"
    by simp
  from sp f f' f'' p p' show ?thesis by blast
qed

text \<open>
  A validation fold with columns \<^verbatim>\<open>load, horizon, temp\<close>: the trial returns its loss, and
  the validation features given to \<^verbatim>\<open>fit\<close> are the horizon column.
\<close>

theorem horizon_among_validation_features_counterexample:
  "fst (call ex_env_horizon_inside ex_objective ex_trial) = Inr (Loss 5) \<and>
   Fit \<lparr>index = [0, 1], cols = [(''temp'', [5, 6])]\<rparr>
       \<lparr>series_index = [0, 1], series_name = ''load'', series_values = [10, 20]\<rparr>
       [(\<lparr>index = [0, 1], cols = [(''temp'', [5, 6])]\<rparr>,
         \<lparr>series_index = [0, 1], series_name = ''load'', series_values = [10, 20]\<rparr>),
        (\<lparr>index = [2], cols = [(''horizon'', [24])]\<rparr>,
         \<lparr>series_index = [2], series_name = ''load'', series_values = [30]\<rparr>)]
       10 False ''mae'' [()] \<in> set (snd (call ex_env_horizon_inside ex_objective ex_trial)) \<and>
   columns \<lparr>index = [2 :: nat], cols = [(''horizon'', [24 :: real])]\<rparr> = [''horizon'']"
  by (simp add: call_defs ex_defs)

subsection \<open>Only the train fold is validated\<close>

text \<open>
  C9. When the train fold's columns are in order, the validation and test folds may have
  any columns, in any order, as long as each has a column 0 to take as target: no
  column-order error stops the trial, and once the stop request, if due, has returned,
  the parameters are sampled, the pruning callback is made and the regressor is
  configured, \<^verbatim>\<open>fit\<close> is called, with whatever is column 0 of the validation fold as its
  validation target.
\<close>

theorem only_train_fold_checked:
  assumes "split_data_train_validation_test E (input_data self) (test_fraction self)
             (validation_fraction self) True = Inr (train_data, validation_data, test_data)"
    and "column_order_wrong (columns train_data) = Inr False"
    and "cols validation_data \<noteq> []"
    and "cols test_data \<noteq> []"
    and "get_trial_parameters (interpreter E) T (model_params self) = (Inr param, sg)"
    and "pruning_function self (args_eval self) = Inr cb"
    and "set_params (model self) param = None"
    and "stop_returns E self T"
  shows "\<exists>x y vx vy rest.
           is_x_y_of train_data x y \<and> is_x_y_of validation_data vx vy \<and>
           snd (call E self T) =
             (if utcnow E - start_time self > budget then [StudyStop] else []) @
             SplitData (input_data self) (test_fraction self) (validation_fraction self) True #
             map Suggest sg @
             [PruningFunction (args_eval self), SetParams param,
              Fit x y [(x, y), (vx, vy)] EARLY_STOPPING_ROUNDS (verbose self) (eval_metric self)
                [cb]] @ rest"
proof -
  from assms(2) have "cols train_data \<noteq> []"
    by (auto simp: column_order_wrong_def columns_def split: if_splits)
  then obtain tx ty where tr: "split_x_y train_data = Inr (tx, ty)"
    by (cases "cols train_data") (auto simp: split_x_y_def iloc_0_def)
  from assms(3) obtain vx vy where va: "split_x_y validation_data = Inr (vx, vy)"
    by (cases "cols validation_data") (auto simp: split_x_y_def iloc_0_def)
  from assms(4) obtain sx sy where te: "split_x_y test_data = Inr (sx, sy)"
    by (cases "cols test_data") (auto simp: split_x_y_def iloc_0_def)
  let ?tr1 = "(if utcnow E - start_time self > budget then [StudyStop] else []) @
      [SplitData (input_data self) (test_fraction self) (validation_fraction self) True]"
  from assms(1,2) tr va te call_stop_returns[OF assms(8)]
  have c: "call E self T = fit_and_score E self T ?tr1 tx ty vx vy sx sy"
    by (simp add: split_fit_score_def Let_def)
  have "\<exists>rest. snd (fit_and_score E self T ?tr1 tx ty vx vy sx sy) =
      ?tr1 @ map Suggest sg @
        [PruningFunction (args_eval self), SetParams param,
         Fit tx ty [(tx, ty), (vx, vy)] EARLY_STOPPING_ROUNDS (verbose self) (eval_metric self)
           [cb]] @ rest"
    using assms(5,6,7)
    by (simp add: fit_and_score_def Let_def split: option.splits sum.splits prod.splits)
  then obtain rest where "snd (call E self T) =
      ?tr1 @ map Suggest sg @
        [PruningFunction (args_eval self), SetParams param,
         Fit tx ty [(tx, ty), (vx, vy)] EARLY_STOPPING_ROUNDS (verbose self) (eval_metric self)
           [cb]] @ rest"
    unfolding c by blast
  moreover from tr have "is_x_y_of train_data tx ty" by (simp add: split_x_y_is_x_y_of)
  moreover from va have "is_x_y_of validation_data vx vy" by (simp add: split_x_y_is_x_y_of)
  ultimately show ?thesis by auto
qed

text \<open>
  A validation fold with columns \<^verbatim>\<open>horizon, temp, load\<close>: the check of line 130 would
  reject it, and \<^verbatim>\<open>fit\<close> is reached.
\<close>

theorem only_train_fold_checked_witness:
  "split_data_train_validation_test ex_env_swapped (input_data ex_objective)
     (test_fraction ex_objective) (validation_fraction ex_objective) True =
     Inr (rows 0 2 ex_data, (rows 2 1 ex_data)\<lparr>cols := rev (cols (rows 2 1 ex_data))\<rparr>,
          rows 3 1 ex_data) \<and>
   column_order_wrong (columns (rows 0 2 ex_data)) = Inr False \<and>
   columns ((rows 2 1 ex_data)\<lparr>cols := rev (cols (rows 2 1 ex_data))\<rparr>) =
     [''horizon'', ''temp'', ''load''] \<and>
   column_order_wrong (columns ((rows 2 1 ex_data)\<lparr>cols := rev (cols (rows 2 1 ex_data))\<rparr>)) =
     Inr True \<and>
   stop_returns ex_env_swapped ex_objective ex_trial \<and>
   (\<exists>x y vx vy rest.
      is_x_y_of (rows 0 2 ex_data) x y \<and>
      is_x_y_of ((rows 2 1 ex_data)\<lparr>cols := rev (cols (rows 2 1 ex_data))\<rparr>) vx vy \<and>
      snd (call ex_env_swapped ex_objective ex_trial) =
        (if utcnow ex_env_swapped - start_time ex_objective > budget then [StudyStop] else []) @
        SplitData (input_data ex_objective) (test_fraction ex_objective)
          (validation_fraction ex_objective) True #
        map Suggest [SuggestFloat ''eta'' (1/100) (2/10) (PBool False),
                     SuggestInt ''max_depth'' (PInt 3) (PInt 10)] @
        [PruningFunction (args_eval ex_objective),
         SetParams [(''eta'', PFloat (1/100)), (''max_depth'', PInt 10)],
         Fit x y [(x, y), (vx, vy)] EARLY_STOPPING_ROUNDS (verbose ex_objective)
           (eval_metric ex_objective) [()]] @ rest)"
proof -
  have sp: "split_data_train_validation_test ex_env_swapped (input_data ex_objective)
     (test_fraction ex_objective) (validation_fraction ex_objective) True =
     Inr (rows 0 2 ex_data, (rows 2 1 ex_data)\<lparr>cols := rev (cols (rows 2 1 ex_data))\<rparr>,
          rows 3 1 ex_data)"
    by (simp add: ex_env_swapped_def ex_env_def ex_objective_def)
  have ok: "column_order_wrong (columns (rows 0 2 ex_data)) = Inr False"
    by (simp add: column_order_wrong_def columns_def rows_def ex_data_def)
  have cs: "columns ((rows 2 1 ex_data)\<lparr>cols := rev (cols (rows 2 1 ex_data))\<rparr>) =
     [''horizon'', ''temp'', ''load'']"
    by (simp add: columns_def rows_def ex_data_def)
  have bad: "column_order_wrong
      (columns ((rows 2 1 ex_data)\<lparr>cols := rev (cols (rows 2 1 ex_data))\<rparr>)) = Inr True"
    by (simp add: column_order_wrong_def columns_def rows_def ex_data_def)
  have va: "cols ((rows 2 1 ex_data)\<lparr>cols := rev (cols (rows 2 1 ex_data))\<rparr>) \<noteq> []"
    by (simp add: rows_def ex_data_def)
  have te: "cols (rows 3 1 ex_data) \<noteq> []"
    by (simp add: rows_def ex_data_def)
  have gp: "get_trial_parameters (interpreter ex_env_swapped) ex_trial (model_params ex_objective) =
      (Inr [(''eta'', PFloat (1/100)), (''max_depth'', PInt 10)],
       [SuggestFloat ''eta'' (1/100) (2/10) (PBool False),
        SuggestInt ''max_depth'' (PInt 3) (PInt 10)])"
    by (simp add: get_trial_parameters_def process_tuple_def ex_defs)
  have pf: "pruning_function ex_objective (args_eval ex_objective) = Inr ()"
    by (simp add: ex_objective_def)
  have st: "set_params (model ex_objective) [(''eta'', PFloat (1/100)), (''max_depth'', PInt 10)] = None"
    by (simp add: ex_objective_def ex_model_def)
  have sr: "stop_returns ex_env_swapped ex_objective ex_trial"
    by (simp add: stop_returns_def ex_trial_def)
  note reached = only_train_fold_checked[OF sp ok va te gp pf st sr]
  from sp ok cs bad sr reached show ?thesis by blast
qed

subsection \<open>A metric name that does not resolve\<close>

text \<open>
  C3, at a metric name the metric module does not define: the AttributeError of the lookup
  is caught at line 170, a message is printed, and the call returns \<^verbatim>\<open>None\<close> where its
  signature and docstring promise a float.
\<close>

theorem unknown_metric_returns_none:
  "eval_metric ex_objective_rmsle = ''rmsle'' \<and>
   fst (call ex_env ex_objective_rmsle ex_trial) = Inr ReturnedNone \<and>
   last (snd (call ex_env ex_objective_rmsle ex_trial)) =
     Print ''loss function is not defined in openstf.metrics.metrics''"
  by (simp add: call_defs ex_defs ex_objective_rmsle_def)

section \<open>Properties of \<^verbatim>\<open>apply_features\<close>\<close>

subsection \<open>The loop over the feature functions\<close>

lemmas feature_defs = apply_features_def feature_functions_def dict_update_def
  calendar_feature_functions_def weather_features_def set_column_def columns_def

lemmas ex_feature_defs = ex_feature_env_def ex_heap_def ex_load_def


lemma columns_set_column:
  "set (columns (set_column df key vals)) = insert key (set (columns df))"
  by (auto simp: columns_def set_column_def AList.dom_update)

lemma add_features_loop_effect:
  assumes "add_features_loop ff names H data computed = (r, H1, computed1)"
  shows "\<exists>new. computed1 = computed @ new \<and>
           set new \<subseteq> set names \<inter> fst ` set ff \<and>
           (\<forall>b. b \<noteq> data \<longrightarrow> H1 b = H b) \<and>
           set (columns (H data)) \<subseteq> set (columns (H1 data)) \<and>
           set (columns (H1 data)) \<subseteq> set (columns (H data)) \<union> set new \<and>
           (r = None \<longrightarrow>
              new = filter (\<lambda>k. k \<in> set names) (map fst ff) \<and>
              set (columns (H1 data)) = set (columns (H data)) \<union> set new)"
  using assms
proof (induction ff names H data computed rule: add_features_loop.induct)
  case (1 features H data computed)
  then show ?case by simp
next
  case (2 key featfunc rest features H data computed)
  show ?case
  proof (cases "key \<in> set features")
    case False
    with "2.prems" have "add_features_loop rest features H data computed = (r, H1, computed1)"
      by simp
    from "2.IH"(1)[OF _ this] False obtain new where
      "computed1 = computed @ new" "set new \<subseteq> set features \<inter> fst ` set rest"
      "\<forall>b. b \<noteq> data \<longrightarrow> H1 b = H b" "set (columns (H data)) \<subseteq> set (columns (H1 data))"
      "set (columns (H1 data)) \<subseteq> set (columns (H data)) \<union> set new"
      "r = None \<longrightarrow> new = filter (\<lambda>k. k \<in> set features) (map fst rest) \<and>
         set (columns (H1 data)) = set (columns (H data)) \<union> set new"
      by auto
    with False show ?thesis
      by (intro exI[of _ new]) auto
  next
    case True
    show ?thesis
    proof (cases "cols (H data)")
      case Nil
      with True "2.prems" show ?thesis by (intro exI[of _ "[]"]) auto
    next
      case (Cons c others)
      obtain name vals where c: "c = (name, vals)" by (cases c)
      let ?ser = "\<lparr>series_index = index (H data), series_name = name, series_values = vals\<rparr>"
      show ?thesis
      proof (cases "featfunc ?ser")
        case (Inl e)
        with True Cons c "2.prems" show ?thesis
          by (intro exI[of _ "[key]"]) auto
      next
        case (Inr new_vals)
        let ?H = "H(data := set_column (H data) key new_vals)"
        from True Cons c Inr "2.prems"
        have "add_features_loop rest features ?H data (computed @ [key]) = (r, H1, computed1)"
          by simp
        from "2.IH"(2)[OF _ Cons c[symmetric] Inr this] True obtain new where
          n: "computed1 = (computed @ [key]) @ new" "set new \<subseteq> set features \<inter> fst ` set rest"
          "\<forall>b. b \<noteq> data \<longrightarrow> H1 b = ?H b" "set (columns (?H data)) \<subseteq> set (columns (H1 data))"
          "set (columns (H1 data)) \<subseteq> set (columns (?H data)) \<union> set new"
          "r = None \<longrightarrow> new = filter (\<lambda>k. k \<in> set features) (map fst rest) \<and>
             set (columns (H1 data)) = set (columns (?H data)) \<union> set new"
          by auto
        have cs: "set (columns (?H data)) = insert key (set (columns (H data)))"
          by (simp add: columns_set_column)
        from n cs True show ?thesis
          by (intro exI[of _ "key # new"]) auto
      qed
    qed
  qed
qed

lemma ex_loop:
  "add_features_loop (feature_functions ex_feature_env (Some [''IsSunday'', ''T-1'', ''Month'', ''foo'']) 24)
     [''IsSunday'', ''T-1'', ''Month'', ''foo''] ex_heap 0 [] =
   (None,
    ex_heap(0 := \<lparr>index = index ex_load,
                  cols = [(''load'', [PFloat 10, PFloat 20]), (''T-1'', [PNone, PFloat 10]),
                          (''IsSunday'', [PBool True, PBool False]),
                          (''Month'', [PInt 1, PInt 1])]\<rparr>),
    [''T-1'', ''IsSunday'', ''Month''])"
  by (simp add: feature_defs ex_feature_defs)


subsection \<open>Which features are computed\<close>

text \<open>
  C8, as the code has it. Without a feature list (\<^verbatim>\<open>features is None\<close>) the guard of line 78
  skips the loop: no lag, calendar or holiday feature function is applied, and the frame
  goes to the weather helpers as it came. With a list, the loop applies feature functions
  of listed names only and adds no other column; when it ends without an exception it has
  applied exactly the feature functions whose names are listed, in the order of the dict,
  and the frame handed to the weather helpers has the input's columns and those.
\<close>

theorem apply_features_name_filter:
  "apply_features FE H data None horizon = (weather_features FE H data None, []) \<and>
   (\<forall>r H1 computed.
      add_features_loop (feature_functions FE (Some names) horizon) names H data [] =
        (r, H1, computed) \<longrightarrow>
      snd (apply_features FE H data (Some names) horizon) = computed \<and>
      set computed \<subseteq> set names \<inter> fst ` set (feature_functions FE (Some names) horizon) \<and>
      set (columns (H1 data)) \<subseteq> set (columns (H data)) \<union> set computed \<and>
      (r = None \<longrightarrow>
         computed = filter (\<lambda>k. k \<in> set names)
                      (map fst (feature_functions FE (Some names) horizon)) \<and>
         set (columns (H1 data)) = set (columns (H data)) \<union> set computed \<and>
         apply_features FE H data (Some names) horizon =
           (weather_features FE H1 data (Some names), computed)))"
proof (intro conjI allI impI)
  show "apply_features FE H data None horizon = (weather_features FE H data None, [])"
    by (simp add: apply_features_def)
next
  fix r H1 computed
  assume l: "add_features_loop (feature_functions FE (Some names) horizon) names H data [] =
        (r, H1, computed)"
  from add_features_loop_effect[OF l] obtain new where
    n: "computed = [] @ new"
    "set new \<subseteq> set names \<inter> fst ` set (feature_functions FE (Some names) horizon)"
    "set (columns (H1 data)) \<subseteq> set (columns (H data)) \<union> set new"
    "r = None \<longrightarrow>
       new = filter (\<lambda>k. k \<in> set names) (map fst (feature_functions FE (Some names) horizon)) \<and>
       set (columns (H1 data)) = set (columns (H data)) \<union> set new"
    by blast
  show "snd (apply_features FE H data (Some names) horizon) = computed"
    using l by (cases r) (simp_all add: apply_features_def)
  show "set computed \<subseteq> set names \<inter> fst ` set (feature_functions FE (Some names) horizon)"
    using n by simp
  show "set (columns (H1 data)) \<subseteq> set (columns (H data)) \<union> set computed"
    using n by simp
  show "computed = filter (\<lambda>k. k \<in> set names)
                      (map fst (feature_functions FE (Some names) horizon))" if "r = None"
    using n that by simp
  show "set (columns (H1 data)) = set (columns (H data)) \<union> set computed" if "r = None"
    using n that by simp
  show "apply_features FE H data (Some names) horizon =
           (weather_features FE H1 data (Some names), computed)" if "r = None"
    using l that by (simp add: apply_features_def)
qed

text \<open>
  Two rows of load, once with a list of three known names and an unknown one, once
  without a list.
\<close>

theorem apply_features_name_filter_witness:
  "add_features_loop (feature_functions ex_feature_env (Some [''IsSunday'', ''T-1'', ''Month'', ''foo'']) 24)
     [''IsSunday'', ''T-1'', ''Month'', ''foo''] ex_heap 0 [] =
   (None,
    ex_heap(0 := \<lparr>index = index ex_load,
                  cols = [(''load'', [PFloat 10, PFloat 20]), (''T-1'', [PNone, PFloat 10]),
                          (''IsSunday'', [PBool True, PBool False]),
                          (''Month'', [PInt 1, PInt 1])]\<rparr>),
    [''T-1'', ''IsSunday'', ''Month'']) \<and>
   snd (apply_features ex_feature_env ex_heap 0 (Some [''IsSunday'', ''T-1'', ''Month'', ''foo'']) 24) =
     [''T-1'', ''IsSunday'', ''Month''] \<and>
   snd (apply_features ex_feature_env ex_heap 0 None 24) = []"
proof -
  note t = apply_features_name_filter[of ex_feature_env ex_heap 0 24
      "[''IsSunday'', ''T-1'', ''Month'', ''foo'']"]
  from t[THEN conjunct2, rule_format, OF ex_loop, THEN conjunct1]
  have a: "snd (apply_features ex_feature_env ex_heap 0
      (Some [''IsSunday'', ''T-1'', ''Month'', ''foo'']) 24) = [''T-1'', ''IsSunday'', ''Month'']" .
  from t[THEN conjunct1]
  have b: "snd (apply_features ex_feature_env ex_heap 0 None 24) = []" by simp
  from ex_loop a b show ?thesis by blast
qed

text \<open>
  Without a list, none of the seven feature functions at hand is applied, and the output
  has the one column of the input.
\<close>

theorem apply_features_none_counterexample:
  "map fst (feature_functions ex_feature_env None 24) =
     [''T-1'', ''IsWeekendDay'', ''IsWeekDay'', ''IsSunday'', ''Month'', ''Quarter'',
      ''IsNationalHoliday''] \<and>
   fst (fst (apply_features ex_feature_env ex_heap 0 None 24)) = Inr 0 \<and>
   columns (snd (fst (apply_features ex_feature_env ex_heap 0 None 24)) 0) = [''load''] \<and>
   snd (apply_features ex_feature_env ex_heap 0 None 24) = []"
  by (simp add: feature_defs ex_feature_defs)

subsection \<open>The input frame is changed in place\<close>



end
